(* ===== verification/Prelude.thy ===== *)
theory Prelude
  imports Main "HOL-Library.AList"
begin

text \<open>
  Shared vocabulary of the development: the few JavaScript runtime values and
  built-ins that \<open>src/pages/buy-ticket.tsx\<close> relies on, modelled as executable
  HOL functions, and the generic list and string lemmas the component theories
  share.
  \<^item> JS numbers as the form produces them: \<open>jsnum\<close> is an integer or \<open>NaN\<close>
    (\<open>parseInt\<close> only ever returns integers or \<open>NaN\<close>; \<open>-0\<close> behaves as \<open>0\<close>
    in every operation the form applies to it).
  \<^item> \<open>parse_int\<close> is \<open>parseInt(s, 10)\<close>, \<open>dec_int\<close>/\<open>js_num_to_string\<close> are
    \<open>Number.prototype.toString\<close>, \<open>pad_start\<close> is \<open>String.prototype.padStart\<close>,
    \<open>to_length\<close> is the abstract operation ToLength used by \<open>Array.from\<close>,
    \<open>array_ctor\<close> is the length check of \<open>Array(n)\<close>, \<open>js_array_set\<close> is
    the assignment \<open>a[i] = v\<close>.
  \<^item> A JS object with string-valued properties is an association list
    \<open>jsobj\<close>: the order of its pairs is the property order that
    \<open>JSON.stringify\<close> and object spread observe; a missing key is \<open>undefined\<close>.
  \<^item> A handler that may throw returns an \<open>outcome\<close>: the state after the effects
    that ran before the throw, tagged with the exception.
\<close>

named_theorems js_simps "evaluation rules of the modelled JavaScript built-ins"
named_theorems handler_defs "definitions of the form's event handlers"

type_synonym jsobj = "(string \<times> string) list"

datatype jsnum = Num int | NaN

datatype js_error = RangeError

datatype 's outcome = Done 's | Thrown js_error 's

text \<open>A browser \<open>File\<close>, identified by its name; its bytes are never inspected.\<close>

datatype js_file = File string

text \<open>
  A React element as JSX builds it: a tag, its string-valued props, its event
  props (the DOM event name and the handler, of a type \<open>'h\<close> each component
  chooses) and its children; or a text child.
\<close>

datatype 'h vnode = Elem string "(string \<times> string) list" "(string \<times> 'h) list" "'h vnode list" | Txt string

primrec outcome_state :: "'s outcome \<Rightarrow> 's" where
  "outcome_state (Done s) = s"
| "outcome_state (Thrown e s) = s"

subsection \<open>Characters and decimal digits\<close>

definition is_dec_digit :: "char \<Rightarrow> bool" where
  "is_dec_digit c \<longleftrightarrow> (48::nat) \<le> of_char c \<and> of_char c \<le> (57::nat)"

text \<open>
  The white space that \<open>parseInt\<close> skips and that the regular-expression class
  \<open>\s\<close> matches, restricted to the 8-bit characters of the model:
  TAB, LF, VT, FF, CR, SPACE and NO-BREAK SPACE.
\<close>

definition is_js_space :: "char \<Rightarrow> bool" where
  "is_js_space c \<longleftrightarrow> of_char c \<in> {9, 10, 11, 12, 13, 32, 160::nat}"

definition digit_char :: "nat \<Rightarrow> char" where
  "digit_char d = char_of (48 + d)"

definition digit_val :: "char \<Rightarrow> nat" where
  "digit_val c = of_char c - 48"

fun dec_nat :: "nat \<Rightarrow> string" where
  "dec_nat n = (if n < 10 then [digit_char n] else dec_nat (n div 10) @ [digit_char (n mod 10)])"

declare dec_nat.simps [simp del]

definition dec_int :: "int \<Rightarrow> string" where
  "dec_int i = (if i < 0 then CHR ''-'' # dec_nat (nat (- i)) else dec_nat (nat i))"

definition digits_value :: "string \<Rightarrow> nat" where
  "digits_value ds = foldl (\<lambda>acc c. 10 * acc + digit_val c) 0 ds"

primrec js_num_to_string :: "jsnum \<Rightarrow> string" where
  "js_num_to_string (Num i) = dec_int i"
| "js_num_to_string NaN = ''NaN''"

subsection \<open>parseInt(s, 10)\<close>

text \<open>
  ECMAScript \<open>parseInt\<close> with radix 10: skip leading white space, read an optional
  sign, then the longest run of decimal digits; no digit gives \<open>NaN\<close>.
\<close>

definition split_sign :: "string \<Rightarrow> int \<times> string" where
  "split_sign t = (case t of
      c # r \<Rightarrow> (if c = CHR ''-'' then (-1, r) else if c = CHR ''+'' then (1, r) else (1, t))
    | [] \<Rightarrow> (1, []))"

definition parse_int :: "string \<Rightarrow> jsnum" where
  "parse_int s =
     (let (sgn, u) = split_sign (dropWhile is_js_space s);
          ds = takeWhile is_dec_digit u
      in if ds = [] then NaN else Num (sgn * int (digits_value ds)))"

subsection \<open>Arrays and lengths\<close>

text \<open>ToLength, as \<open>Array.from({length: n})\<close> applies it: \<open>NaN\<close> and negatives give 0.\<close>

primrec to_length :: "jsnum \<Rightarrow> nat" where
  "to_length (Num i) = nat i"
| "to_length NaN = 0"

text \<open>
  \<open>Array(n)\<close> with one numeric argument: a length that is not an integer in
  \<open>[0, 2^32)\<close> raises \<open>RangeError\<close>.
\<close>

primrec array_ctor :: "jsnum \<Rightarrow> js_error + nat" where
  "array_ctor (Num i) = (if 0 \<le> i \<and> i < 2 ^ 32 then Inr (nat i) else Inl RangeError)"
| "array_ctor NaN = Inl RangeError"

text \<open>
  \<open>a[i] = v\<close>: replaces an element in range, appends at \<open>i = a.length\<close>. Beyond the
  end JavaScript leaves holes; that case is outside the model (\<open>None\<close>), and the
  page theory shows that the form never reaches it.
\<close>

definition js_array_set :: "'a list \<Rightarrow> nat \<Rightarrow> 'a \<Rightarrow> 'a list option" where
  "js_array_set xs i v =
     (if i < length xs then Some (xs[i := v]) else if i = length xs then Some (xs @ [v]) else None)"

definition js_array_get :: "'a list \<Rightarrow> nat \<Rightarrow> 'a option" where
  "js_array_get xs i = (if i < length xs then Some (xs ! i) else None)"

text \<open>\<open>s.padStart(n, c)\<close> with a one-character pad string.\<close>

definition pad_start :: "nat \<Rightarrow> char \<Rightarrow> string \<Rightarrow> string" where
  "pad_start n c s = replicate (n - length s) c @ s"

text \<open>Joining strings with a separator, as the serialisations of arrays and objects do.\<close>

fun join_with :: "string \<Rightarrow> string list \<Rightarrow> string" where
  "join_with sep [] = []"
| "join_with sep [x] = x"
| "join_with sep (x # xs) = x @ sep @ join_with sep xs"

text \<open>Truthiness of an optional string property: \<open>undefined\<close> and \<open>''''\<close> are falsy.\<close>

definition truthy :: "string option \<Rightarrow> bool" where
  "truthy v \<longleftrightarrow> (case v of None \<Rightarrow> False | Some s \<Rightarrow> s \<noteq> [])"

declare is_dec_digit_def [js_simps] is_js_space_def [js_simps] digit_char_def [js_simps]
  digit_val_def [js_simps] dec_int_def [js_simps] pad_start_def [js_simps]
  js_array_set_def [js_simps] js_array_get_def [js_simps] truthy_def [js_simps]

subsection \<open>Lemmas on the built-ins\<close>


lemma of_char_digit_char: "d < 10 \<Longrightarrow> of_char (digit_char d) = 48 + d"
  by (simp add: digit_char_def)

lemma digit_char_is_digit: "d < 10 \<Longrightarrow> is_dec_digit (digit_char d)"
  by (simp add: is_dec_digit_def of_char_digit_char)

lemma digit_val_digit_char [simp]: "d < 10 \<Longrightarrow> digit_val (digit_char d) = d"
  by (simp add: digit_val_def of_char_digit_char)

lemma digits_value_snoc [simp]: "digits_value (xs @ [c]) = 10 * digits_value xs + digit_val c"
  by (simp add: digits_value_def)

lemma dec_nat_digits: "\<forall>c \<in> set (dec_nat n). is_dec_digit c"
proof (induction n rule: dec_nat.induct)
  case (1 n)
  then show ?case
    by (subst dec_nat.simps) (auto simp: digit_char_is_digit)
qed

lemma dec_nat_not_Nil [simp]: "dec_nat n \<noteq> []"
  by (subst dec_nat.simps) simp

lemma digits_value_dec_nat: "digits_value (dec_nat n) = n"
proof (induction n rule: dec_nat.induct)
  case (1 n)
  show ?case
  proof (cases "n < 10")
    case True
    then show ?thesis by (subst dec_nat.simps) (simp add: digits_value_def)
  next
    case False
    with "1" have "digits_value (dec_nat (n div 10)) = n div 10" by simp
    with False show ?thesis by (subst dec_nat.simps) simp
  qed
qed

lemma js_array_set_length:
  "js_array_set xs i v = Some ys \<Longrightarrow> length ys = max (length xs) (Suc i)"
  by (auto simp: js_array_set_def split: if_splits)

lemma js_array_set_nth:
  "js_array_set xs i v = Some ys \<Longrightarrow> j < length ys \<Longrightarrow> ys ! j = (if j = i then v else xs ! j)"
  by (auto simp: js_array_set_def nth_append split: if_splits)

lemma js_array_set_Some_iff [simp]: "(\<exists>ys. js_array_set xs i v = Some ys) \<longleftrightarrow> i \<le> length xs"
  by (simp add: js_array_set_def)

lemma pad_start_length [simp]: "length (pad_start n c s) = max n (length s)"
  by (simp add: pad_start_def)

lemma truthy_Some [simp]: "truthy (Some s) \<longleftrightarrow> s \<noteq> []" and truthy_None [simp]: "\<not> truthy None"
  by (simp_all add: truthy_def)

lemma split_suffix:
  assumes "\<And>m. Q m \<Longrightarrow> length m = k"
  shows "(\<exists>p m. s = p @ m \<and> P p \<and> Q m) \<longleftrightarrow>
         k \<le> length s \<and> P (take (length s - k) s) \<and> Q (drop (length s - k) s)"
proof
  assume "\<exists>p m. s = p @ m \<and> P p \<and> Q m"
  then obtain p m where "s = p @ m" "P p" "Q m" by blast
  with assms[of m] show "k \<le> length s \<and> P (take (length s - k) s) \<and> Q (drop (length s - k) s)"
    by simp
next
  assume "k \<le> length s \<and> P (take (length s - k) s) \<and> Q (drop (length s - k) s)"
  then show "\<exists>p m. s = p @ m \<and> P p \<and> Q m"
    by (metis append_take_drop_id)
qed

end
