(* ===== verification/Regex.thy ===== *)
theory Regex
  imports Prelude
begin

text \<open>
  The regular expressions of \<open>validateForm\<close> (\<open>src/pages/buy-ticket.tsx\<close>, lines
  103 and 111) are anchored (\<open>^...$\<close>, no flags) and use only character classes,
  concatenation, alternation by \<open>?\<close>, and the repetitions \<open>*\<close>, \<open>+\<close>,
  \<open>{n}\<close>, \<open>{m,n}\<close>: no back-references and no look-around. For such a pattern
  \<open>RegExp.prototype.test\<close> succeeds exactly when the whole input is in the
  pattern's language (the backtracking engine explores every alternative, and
  without the \<open>m\<close> flag \<open>$\<close> matches only at the end of the input).

  This theory gives the syntax (\<open>rx\<close>, with character classes as lists of
  inclusive character ranges), the language semantics \<open>lang\<close>, and an executable
  matcher \<open>rx_match\<close> by Brzozowski derivatives with simplifying constructors.
  The quantifiers are derived forms (\<open>rx_opt\<close>, \<open>rx_plus\<close>, \<open>rx_pow\<close>,
  \<open>rx_upto\<close>, \<open>rx_rep\<close>). The lemmas show that the matcher decides membership in
  the language and give membership rules for the derived forms.
\<close>

datatype rx =
    RZero
  | REps
  | RCls "(char \<times> char) list"
  | RSeq rx rx
  | RAlt rx rx
  | RStar rx

definition in_ranges :: "(char \<times> char) list \<Rightarrow> char \<Rightarrow> bool" where
  "in_ranges rs c \<longleftrightarrow> list_ex (\<lambda>(lo, hi). of_char lo \<le> (of_char c :: nat) \<and> of_char c \<le> (of_char hi :: nat)) rs"

definition lconc :: "string set \<Rightarrow> string set \<Rightarrow> string set" where
  "lconc A B = {u @ v | u v. u \<in> A \<and> v \<in> B}"

inductive_set kstar :: "string set \<Rightarrow> string set" for A :: "string set" where
  kstar_nil: "[] \<in> kstar A"
| kstar_app: "u \<in> A \<Longrightarrow> v \<in> kstar A \<Longrightarrow> u @ v \<in> kstar A"

primrec lang :: "rx \<Rightarrow> string set" where
  "lang RZero = {}"
| "lang REps = {[]}"
| "lang (RCls rs) = {[c] | c. in_ranges rs c}"
| "lang (RSeq r s) = lconc (lang r) (lang s)"
| "lang (RAlt r s) = lang r \<union> lang s"
| "lang (RStar r) = kstar (lang r)"

primrec nullable :: "rx \<Rightarrow> bool" where
  "nullable RZero = False"
| "nullable REps = True"
| "nullable (RCls rs) = False"
| "nullable (RSeq r s) = (nullable r \<and> nullable s)"
| "nullable (RAlt r s) = (nullable r \<or> nullable s)"
| "nullable (RStar r) = True"

text \<open>Constructors that drop the neutral and absorbing expressions as they build.\<close>

fun sseq :: "rx \<Rightarrow> rx \<Rightarrow> rx" where
  "sseq RZero s = RZero"
| "sseq r RZero = RZero"
| "sseq REps s = s"
| "sseq r REps = r"
| "sseq r s = RSeq r s"

fun salt :: "rx \<Rightarrow> rx \<Rightarrow> rx" where
  "salt RZero s = s"
| "salt r RZero = r"
| "salt r s = (if r = s then r else RAlt r s)"

primrec deriv :: "char \<Rightarrow> rx \<Rightarrow> rx" where
  "deriv c RZero = RZero"
| "deriv c REps = RZero"
| "deriv c (RCls rs) = (if in_ranges rs c then REps else RZero)"
| "deriv c (RSeq r s) =
     (if nullable r then salt (sseq (deriv c r) s) (deriv c s) else sseq (deriv c r) s)"
| "deriv c (RAlt r s) = salt (deriv c r) (deriv c s)"
| "deriv c (RStar r) = sseq (deriv c r) (RStar r)"

text \<open>\<open>/^r$/.test(s)\<close>: take the derivative by each character of \<open>s\<close> in turn.\<close>

definition rx_match :: "rx \<Rightarrow> string \<Rightarrow> bool" where
  "rx_match r s = nullable (fold deriv s r)"

subsection \<open>Derived forms of the pattern syntax\<close>

definition rx_chr :: "char \<Rightarrow> rx" where
  "rx_chr c = RCls [(c, c)]"

definition rx_lit :: "string \<Rightarrow> rx" where
  "rx_lit s = foldr (\<lambda>c r. RSeq (rx_chr c) r) s REps"

definition rx_opt :: "rx \<Rightarrow> rx" where
  "rx_opt r = RAlt r REps"

definition rx_plus :: "rx \<Rightarrow> rx" where
  "rx_plus r = RSeq r (RStar r)"

primrec rx_pow :: "nat \<Rightarrow> rx \<Rightarrow> rx" where
  "rx_pow 0 r = REps"
| "rx_pow (Suc n) r = RSeq r (rx_pow n r)"

primrec rx_upto :: "nat \<Rightarrow> rx \<Rightarrow> rx" where
  "rx_upto 0 r = REps"
| "rx_upto (Suc n) r = rx_opt (RSeq r (rx_upto n r))"

text \<open>\<open>r{m,n}\<close>: \<open>m\<close> mandatory copies, then up to \<open>n - m\<close> optional ones.\<close>

definition rx_rep :: "nat \<Rightarrow> nat \<Rightarrow> rx \<Rightarrow> rx" where
  "rx_rep m n r = RSeq (rx_pow m r) (rx_upto (n - m) r)"

subsection \<open>Languages: concatenation and star\<close>

lemma in_lconc_iff: "w \<in> lconc A B \<longleftrightarrow> (\<exists>u v. w = u @ v \<and> u \<in> A \<and> v \<in> B)"
  by (auto simp: lconc_def)

lemma lconc_empty [simp]: "lconc {} B = {}" "lconc A {} = {}"
  by (auto simp: lconc_def)

lemma lconc_eps [simp]: "lconc {[]} B = B" "lconc A {[]} = A"
  by (auto simp: lconc_def)

lemma lconcI: "u \<in> A \<Longrightarrow> v \<in> B \<Longrightarrow> u @ v \<in> lconc A B"
  by (auto simp: lconc_def)

lemma Nil_in_lconc [simp]: "[] \<in> lconc A B \<longleftrightarrow> [] \<in> A \<and> [] \<in> B"
  by (auto simp: lconc_def)

lemma Cons_in_lconc:
  "c # w \<in> lconc A B \<longleftrightarrow>
     (\<exists>u v. w = u @ v \<and> c # u \<in> A \<and> v \<in> B) \<or> ([] \<in> A \<and> c # w \<in> B)"
proof
  assume "c # w \<in> lconc A B"
  then obtain u v where uv: "c # w = u @ v" "u \<in> A" "v \<in> B" by (auto simp: lconc_def)
  then show "(\<exists>u v. w = u @ v \<and> c # u \<in> A \<and> v \<in> B) \<or> ([] \<in> A \<and> c # w \<in> B)"
    by (cases u) auto
next
  assume "(\<exists>u v. w = u @ v \<and> c # u \<in> A \<and> v \<in> B) \<or> ([] \<in> A \<and> c # w \<in> B)"
  then show "c # w \<in> lconc A B"
    by (auto dest: lconcI[of "c # _" A _ B] lconcI[of "[]" A _ B])
qed

lemma lconc_assoc: "lconc (lconc A B) C = lconc A (lconc B C)"
  by (auto simp: lconc_def) (metis append.assoc)+

lemma lconc_insert_left: "lconc (insert u A) B = (\<lambda>v. u @ v) ` B \<union> lconc A B"
  by (auto simp: lconc_def)

lemma kstar_single: "u \<in> A \<Longrightarrow> u \<in> kstar A"
  using kstar_app[OF _ kstar_nil] by fastforce

lemma Cons_in_kstar_D:
  "x \<in> kstar A \<Longrightarrow> x = c # w \<Longrightarrow> \<exists>u v. w = u @ v \<and> c # u \<in> A \<and> v \<in> kstar A"
proof (induction arbitrary: w rule: kstar.induct)
  case kstar_nil
  then show ?case by simp
next
  case (kstar_app u v)
  show ?case
  proof (cases u)
    case Nil
    with kstar_app show ?thesis by simp
  next
    case (Cons d u')
    with kstar_app.prems kstar_app.hyps show ?thesis by auto
  qed
qed

lemma Cons_in_kstar:
  "c # w \<in> kstar A \<longleftrightarrow> (\<exists>u v. w = u @ v \<and> c # u \<in> A \<and> v \<in> kstar A)"
  using Cons_in_kstar_D[of "c # w" A c w] kstar_app[of "c # _" A] by fastforce

subsection \<open>The matcher decides the language\<close>

lemma nullable_iff: "nullable r \<longleftrightarrow> [] \<in> lang r"
  by (induction r) (auto intro: kstar.intros)

lemma lang_sseq [simp]: "lang (sseq r s) = lang (RSeq r s)"
  by (induction r s rule: sseq.induct) simp_all

lemma lang_salt [simp]: "lang (salt r s) = lang (RAlt r s)"
  by (induction r s rule: salt.induct) auto

lemma lang_deriv: "lang (deriv c r) = {w. c # w \<in> lang r}"
proof (induction r)
  case (RSeq r s)
  then show ?case
    by (simp add: nullable_iff Cons_in_lconc set_eq_iff) (auto simp: in_lconc_iff)
next
  case (RStar r)
  then show ?case
    by (simp add: Cons_in_kstar set_eq_iff) (auto simp: in_lconc_iff)
qed auto

lemma lang_fold_deriv: "lang (fold deriv s r) = {w. s @ w \<in> lang r}"
  by (induction s arbitrary: r) (simp_all add: lang_deriv)

lemma rx_match_lang: "rx_match r s \<longleftrightarrow> s \<in> lang r"
  by (simp add: rx_match_def nullable_iff lang_fold_deriv)

subsection \<open>Membership in the derived forms\<close>

lemma in_ranges_single [simp]: "in_ranges [(c, c)] d \<longleftrightarrow> d = c"
  by (auto simp: in_ranges_def)

lemma lang_rx_chr [simp]: "lang (rx_chr c) = {[c]}"
  by (simp add: rx_chr_def)

lemma lang_rx_lit [simp]: "lang (rx_lit s) = {s}"
  by (induction s) (auto simp: rx_lit_def lconc_def)

lemma lang_rx_opt [simp]: "lang (rx_opt r) = insert [] (lang r)"
  by (auto simp: rx_opt_def)

lemma cls_lconc: "w \<in> lconc {[c] | c. P c} B \<longleftrightarrow> (\<exists>c v. w = c # v \<and> P c \<and> v \<in> B)"
proof
  assume "w \<in> lconc {[c] | c. P c} B"
  then show "\<exists>c v. w = c # v \<and> P c \<and> v \<in> B" by (auto simp: lconc_def)
next
  assume "\<exists>c v. w = c # v \<and> P c \<and> v \<in> B"
  then obtain c v where w: "w = [c] @ v" and "P c" "v \<in> B" by auto
  then have "[c] \<in> {[c] | c. P c}" by auto
  from lconcI[OF this \<open>v \<in> B\<close>] w show "w \<in> lconc {[c] | c. P c} B" by simp
qed

lemma kstar_cls: "w \<in> kstar {[c] | c. P c} \<longleftrightarrow> list_all P w"
proof
  assume "w \<in> kstar {[c] | c. P c}"
  then show "list_all P w" by induction auto
next
  assume "list_all P w"
  then show "w \<in> kstar {[c] | c. P c}"
  proof (induction w)
    case Nil
    show ?case by (rule kstar_nil)
  next
    case (Cons c w)
    then have "[c] \<in> {[c] | c. P c}" "w \<in> kstar {[c] | c. P c}" by auto
    from kstar_app[OF this] show ?case by simp
  qed
qed

lemma plus_cls: "w \<in> lang (rx_plus (RCls rs)) \<longleftrightarrow> w \<noteq> [] \<and> list_all (in_ranges rs) w"
  by (cases w) (simp_all add: rx_plus_def cls_lconc kstar_cls)

lemma pow_cls: "w \<in> lang (rx_pow n (RCls rs)) \<longleftrightarrow> length w = n \<and> list_all (in_ranges rs) w"
proof (induction n arbitrary: w)
  case 0
  then show ?case by auto
next
  case (Suc n)
  show ?case by (cases w) (auto simp: cls_lconc Suc.IH)
qed

lemma upto_cls: "w \<in> lang (rx_upto n (RCls rs)) \<longleftrightarrow> length w \<le> n \<and> list_all (in_ranges rs) w"
proof (induction n arbitrary: w)
  case 0
  then show ?case by auto
next
  case (Suc n)
  show ?case by (cases w) (auto simp: cls_lconc Suc.IH)
qed

lemma rep_cls:
  assumes "m \<le> n"
  shows "w \<in> lang (rx_rep m n (RCls rs)) \<longleftrightarrow> m \<le> length w \<and> length w \<le> n \<and> list_all (in_ranges rs) w"
proof
  assume "w \<in> lang (rx_rep m n (RCls rs))"
  then obtain u v where "w = u @ v" "u \<in> lang (rx_pow m (RCls rs))" "v \<in> lang (rx_upto (n - m) (RCls rs))"
    by (auto simp: rx_rep_def in_lconc_iff)
  with assms show "m \<le> length w \<and> length w \<le> n \<and> list_all (in_ranges rs) w"
    by (auto simp: pow_cls upto_cls)
next
  assume w: "m \<le> length w \<and> length w \<le> n \<and> list_all (in_ranges rs) w"
  then have "take m w \<in> lang (rx_pow m (RCls rs))" "drop m w \<in> lang (rx_upto (n - m) (RCls rs))"
    by (auto simp: pow_cls upto_cls list_all_iff dest: in_set_takeD in_set_dropD)
  from lconcI[OF this] show "w \<in> lang (rx_rep m n (RCls rs))"
    by (simp add: rx_rep_def)
qed

end
