(* ===== verification/Patterns.thy ===== *)
theory Patterns
  imports Regex
begin

text \<open>
  The two patterns of \<open>validateForm\<close> in \<open>src/pages/buy-ticket.tsx\<close>, written as
  terms of the \<open>rx\<close> syntax with the character classes of ECMAScript regular
  expressions without the \<open>u\<close> flag:
  \<^item> line 103, \<open>/^[\w-]+(\.[\w-]+)*@([\w-]+\.)+[a-zA-Z]{2,7}$/\<close> is \<open>email_re\<close>;
  \<^item> line 111, \<open>/^(\+91[-\s]?)?[0]?(91)?[789]\d{9}$/\<close> is \<open>phone_re\<close>.
  \<open>email_valid\<close> and \<open>phone_valid\<close> are the two \<open>.test(...)\<close> calls. The lemmas
  characterise the phone pattern exactly (an optional \<open>+91\<close> with an optional
  separator, an optional trunk \<open>0\<close>, an optional \<open>91\<close>, then a ten-digit mobile
  number starting with 7, 8 or 9); the e-mail pattern is characterised in the
  theory \<open>Email\<close>.
\<close>

subsection \<open>Character classes\<close>

text \<open>\<open>\w\<close> is \<open>[A-Za-z0-9_]\<close>; the class \<open>[\w-]\<close> adds the hyphen.\<close>

definition cls_word_dash :: "(char \<times> char) list" where
  "cls_word_dash = [(CHR ''a'', CHR ''z''), (CHR ''A'', CHR ''Z''), (CHR ''0'', CHR ''9''),
     (CHR ''_'', CHR ''_''), (CHR ''-'', CHR ''-'')]"

definition cls_alpha :: "(char \<times> char) list" where
  "cls_alpha = [(CHR ''a'', CHR ''z''), (CHR ''A'', CHR ''Z'')]"

definition cls_digit :: "(char \<times> char) list" where
  "cls_digit = [(CHR ''0'', CHR ''9'')]"

text \<open>\<open>[-\s]\<close>: the hyphen and the white space of \<open>\s\<close> (see \<open>is_js_space\<close>).\<close>

definition cls_phone_sep :: "(char \<times> char) list" where
  "cls_phone_sep = [(CHR ''-'', CHR ''-''), (CHR 0x09, CHR 0x0D), (CHR 0x20, CHR 0x20), (CHR 0xA0, CHR 0xA0)]"

definition cls_789 :: "(char \<times> char) list" where
  "cls_789 = [(CHR ''7'', CHR ''9'')]"

subsection \<open>The patterns\<close>

definition email_re :: rx where
  "email_re =
     RSeq (rx_plus (RCls cls_word_dash))
      (RSeq (RStar (RSeq (rx_chr CHR ''.'') (rx_plus (RCls cls_word_dash))))
       (RSeq (rx_chr CHR ''@'')
        (RSeq (rx_plus (RSeq (rx_plus (RCls cls_word_dash)) (rx_chr CHR ''.'')))
         (rx_rep 2 7 (RCls cls_alpha)))))"

definition phone_re :: rx where
  "phone_re =
     RSeq (rx_opt (RSeq (rx_lit ''+91'') (rx_opt (RCls cls_phone_sep))))
      (RSeq (rx_opt (RCls [(CHR ''0'', CHR ''0'')]))
       (RSeq (rx_opt (rx_lit ''91''))
        (RSeq (RCls cls_789) (rx_pow 9 (RCls cls_digit)))))"

definition email_valid :: "string \<Rightarrow> bool" where
  "email_valid s = rx_match email_re s"

definition phone_valid :: "string \<Rightarrow> bool" where
  "phone_valid s = rx_match phone_re s"

subsection \<open>Reference description of accepted phone numbers\<close>

definition indian_mobile :: "string \<Rightarrow> bool" where
  "indian_mobile t \<longleftrightarrow>
     (case t of [] \<Rightarrow> False | d # ds \<Rightarrow> in_ranges cls_789 d \<and> length ds = 9 \<and> list_all is_dec_digit ds)"

definition trunk_prefix :: "string \<Rightarrow> bool" where
  "trunk_prefix q \<longleftrightarrow> q \<in> set ['''', ''0'', ''91'', ''091'']"

definition phone_prefix :: "string \<Rightarrow> bool" where
  "phone_prefix p \<longleftrightarrow>
     trunk_prefix p \<or>
     (take 3 p = ''+91'' \<and>
      (trunk_prefix (drop 3 p) \<or>
       (drop 3 p \<noteq> [] \<and> in_ranges cls_phone_sep (hd (drop 3 p)) \<and> trunk_prefix (tl (drop 3 p)))))"

subsection \<open>The phone pattern, exactly\<close>

lemma in_ranges_digit: "in_ranges cls_digit = is_dec_digit"
  by (simp add: fun_eq_iff in_ranges_def cls_digit_def is_dec_digit_def)

lemma mobile_lang: "t \<in> lconc (lang (RCls cls_789)) (lang (rx_pow 9 (RCls cls_digit))) \<longleftrightarrow> indian_mobile t"
  by (simp add: cls_lconc pow_cls indian_mobile_def in_ranges_digit split: list.splits)

lemma indian_mobile_length: "indian_mobile t \<Longrightarrow> length t = 10"
  by (simp add: indian_mobile_def split: list.splits)

lemma trunk_lang: "q \<in> lconc (lang (rx_opt (RCls [(CHR ''0'', CHR ''0'')]))) (lang (rx_opt (rx_lit ''91''))) \<longleftrightarrow> trunk_prefix q"
proof -
  have "lang (rx_opt (RCls [(CHR ''0'', CHR ''0'')])) = insert [] {''0''}" by auto
  then show ?thesis by (auto simp: lconc_insert_left trunk_prefix_def)
qed

lemma take3_plus91: "take 3 p = ''+91'' \<longleftrightarrow> (\<exists>q. p = ''+91'' @ q)"
proof
  assume "take 3 p = ''+91''"
  then have "p = ''+91'' @ drop 3 p" by (metis append_take_drop_id)
  then show "\<exists>q. p = ''+91'' @ q" ..
qed auto

lemma phone_prefix_iff:
  "phone_prefix p \<longleftrightarrow> trunk_prefix p \<or>
     (\<exists>q. p = ''+91'' @ q \<and> (trunk_prefix q \<or> (\<exists>c r. q = c # r \<and> in_ranges cls_phone_sep c \<and> trunk_prefix r)))"
  unfolding phone_prefix_def take3_plus91 by (auto simp: neq_Nil_conv)

lemma plus91_lang:
  "u \<in> lang (rx_opt (RSeq (rx_lit ''+91'') (rx_opt (RCls cls_phone_sep)))) \<longleftrightarrow>
     u = [] \<or> u = ''+91'' \<or> (\<exists>c. u = ''+91'' @ [c] \<and> in_ranges cls_phone_sep c)"
  by (auto simp: in_lconc_iff)

lemma prefix_lang:
  "p \<in> lconc (lang (rx_opt (RSeq (rx_lit ''+91'') (rx_opt (RCls cls_phone_sep)))))
          (lconc (lang (rx_opt (RCls [(CHR ''0'', CHR ''0'')]))) (lang (rx_opt (rx_lit ''91''))))
   \<longleftrightarrow> phone_prefix p"
proof -
  have "p \<in> lconc (lang (rx_opt (RSeq (rx_lit ''+91'') (rx_opt (RCls cls_phone_sep)))))
          (lconc (lang (rx_opt (RCls [(CHR ''0'', CHR ''0'')]))) (lang (rx_opt (rx_lit ''91''))))
     \<longleftrightarrow> (\<exists>u v. p = u @ v \<and> (u = [] \<or> u = ''+91'' \<or> (\<exists>c. u = ''+91'' @ [c] \<and> in_ranges cls_phone_sep c))
          \<and> trunk_prefix v)"
    by (simp only: in_lconc_iff[of p] plus91_lang trunk_lang)
  also have "\<dots> \<longleftrightarrow> phone_prefix p"
  proof
    assume "\<exists>u v. p = u @ v \<and> (u = [] \<or> u = ''+91'' \<or> (\<exists>c. u = ''+91'' @ [c] \<and> in_ranges cls_phone_sep c))
          \<and> trunk_prefix v"
    then obtain u v where p: "p = u @ v" and t: "trunk_prefix v"
      and u: "u = [] \<or> u = ''+91'' \<or> (\<exists>c. u = ''+91'' @ [c] \<and> in_ranges cls_phone_sep c)"
      by blast
    from u show "phone_prefix p"
    proof (elim disjE exE conjE)
      assume "u = []"
      with p t show ?thesis by (simp add: phone_prefix_iff)
    next
      assume "u = ''+91''"
      with p t show ?thesis by (simp only: phone_prefix_iff) blast
    next
      fix c assume "u = ''+91'' @ [c]" "in_ranges cls_phone_sep c"
      with p t have "p = ''+91'' @ c # v" by simp
      with t \<open>in_ranges cls_phone_sep c\<close> show ?thesis by (simp only: phone_prefix_iff) blast
    qed
  next
    assume "phone_prefix p"
    then consider "trunk_prefix p"
      | q where "p = ''+91'' @ q" "trunk_prefix q"
      | c r where "p = ''+91'' @ c # r" "in_ranges cls_phone_sep c" "trunk_prefix r"
      by (auto simp only: phone_prefix_iff)
    then show "\<exists>u v. p = u @ v \<and> (u = [] \<or> u = ''+91'' \<or> (\<exists>c. u = ''+91'' @ [c] \<and> in_ranges cls_phone_sep c))
          \<and> trunk_prefix v"
    proof cases
      case 1
      then show ?thesis by (intro exI[of _ "[]"] exI[of _ p]) simp
    next
      case (2 q)
      then show ?thesis by (intro exI[of _ "''+91''"] exI[of _ q]) simp
    next
      case (3 c r)
      then show ?thesis by (intro exI[of _ "''+91'' @ [c]"] exI[of _ r]) simp
    qed
  qed
  finally show ?thesis .
qed

text \<open>
  Claim C5. The phone pattern of line 111 accepts exactly the strings made of a
  prefix (nothing, \<open>0\<close>, \<open>91\<close> or \<open>091\<close>, optionally after \<open>+91\<close> and one
  separator) followed by a ten-digit mobile number whose first digit is 7, 8 or 9.
\<close>

theorem phone_valid_iff:
  "phone_valid s \<longleftrightarrow>
     10 \<le> length s \<and> phone_prefix (take (length s - 10) s) \<and> indian_mobile (drop (length s - 10) s)"
proof -
  let ?L1 = "lang (rx_opt (RSeq (rx_lit ''+91'') (rx_opt (RCls cls_phone_sep))))"
  let ?L2 = "lang (rx_opt (RCls [(CHR ''0'', CHR ''0'')]))"
  let ?L3 = "lang (rx_opt (rx_lit ''91''))"
  let ?M = "lconc (lang (RCls cls_789)) (lang (rx_pow 9 (RCls cls_digit)))"
  have "lang phone_re = lconc ?L1 (lconc ?L2 (lconc ?L3 ?M))"
    by (simp add: phone_re_def del: lang_rx_opt lang_rx_lit)
  also have "\<dots> = lconc (lconc ?L1 (lconc ?L2 ?L3)) ?M"
    by (simp only: lconc_assoc)
  finally have eq: "lang phone_re = lconc (lconc ?L1 (lconc ?L2 ?L3)) ?M" .
  have "phone_valid s \<longleftrightarrow> s \<in> lconc (lconc ?L1 (lconc ?L2 ?L3)) ?M"
    by (simp only: phone_valid_def rx_match_lang eq)
  also have "\<dots> \<longleftrightarrow> (\<exists>p m. s = p @ m \<and> p \<in> lconc ?L1 (lconc ?L2 ?L3) \<and> m \<in> ?M)"
    by (rule in_lconc_iff)
  also have "\<dots> \<longleftrightarrow> (\<exists>p m. s = p @ m \<and> phone_prefix p \<and> indian_mobile m)"
    by (simp only: prefix_lang mobile_lang)
  also have "\<dots> \<longleftrightarrow> 10 \<le> length s \<and> phone_prefix (take (length s - 10) s) \<and> indian_mobile (drop (length s - 10) s)"
    by (rule split_suffix[OF indian_mobile_length])
  finally show ?thesis .
qed


end
