(* ===== verification/Validation.thy ===== *)
theory Validation
  imports Patterns
begin

text \<open>
  \<open>validateForm\<close> of \<open>src/pages/buy-ticket.tsx\<close> (lines 95--120). The closure reads
  two pieces of the form's state, \<open>personDetails\<close> and \<open>transactionImage\<close>; here
  they are the parameters of \<open>validateForm\<close>. A person record is a \<open>jsobj\<close>: a
  property that was never written is \<open>undefined\<close> (\<open>map_of\<close> gives \<open>None\<close>).
  \<open>person_errors i p\<close> is the body of the \<open>forEach\<close> callback for index \<open>i\<close>;
  \<open>errors_from\<close> is the \<open>forEach\<close> loop, which keeps the array order.

  The reference description \<open>attendee_ok\<close> says when a record is acceptable;
  the lemmas show that \<open>validateForm\<close> returns no message exactly when every
  record is acceptable and a screenshot is present, bound the number of
  messages, and fix their order.
\<close>

definition msg_for :: "string \<Rightarrow> nat \<Rightarrow> string \<Rightarrow> string" where
  "msg_for what i tail = what @ '' of Person '' @ dec_nat (Suc i) @ tail"

definition msg_screenshot :: string where
  "msg_screenshot = ''Transaction screenshot is required.''"

text \<open>\<open>if (!v) errors.push(required)\<close>, for a property value \<open>v\<close>.\<close>

definition required_check :: "string option \<Rightarrow> string \<Rightarrow> string list" where
  "required_check v msg = (if truthy v then [] else [msg])"

text \<open>\<open>if (v && !re.test(v)) errors.push(invalid)\<close>.\<close>

definition format_check :: "(string \<Rightarrow> bool) \<Rightarrow> string option \<Rightarrow> string \<Rightarrow> string list" where
  "format_check test v msg = (case v of Some s \<Rightarrow> if s \<noteq> [] \<and> \<not> test s then [msg] else [] | None \<Rightarrow> [])"

text \<open>The two checks of one validated field, in the source's order.\<close>

definition field_errors :: "(string \<Rightarrow> bool) \<Rightarrow> string option \<Rightarrow> string \<Rightarrow> nat \<Rightarrow> string list" where
  "field_errors test v what i =
     required_check v (msg_for what i '' is required.'') @ format_check test v (msg_for what i '' is invalid.'')"

definition person_errors :: "nat \<Rightarrow> jsobj \<Rightarrow> string list" where
  "person_errors i p =
     required_check (map_of p ''name'') (msg_for ''Name'' i '' is required.'') @
     field_errors email_valid (map_of p ''email'') ''Email Address'' i @
     field_errors phone_valid (map_of p ''phone'') ''Phone Number'' i"

fun errors_from :: "nat \<Rightarrow> jsobj list \<Rightarrow> string list" where
  "errors_from i [] = []"
| "errors_from i (p # ps) = person_errors i p @ errors_from (Suc i) ps"

definition validateForm :: "jsobj list \<Rightarrow> js_file option \<Rightarrow> string list" where
  "validateForm personDetails transactionImage =
     errors_from 0 personDetails @ (if transactionImage = None then [msg_screenshot] else [])"

subsection \<open>Reference description\<close>

definition field_ok :: "(string \<Rightarrow> bool) \<Rightarrow> string option \<Rightarrow> bool" where
  "field_ok test v \<longleftrightarrow> (case v of Some s \<Rightarrow> s \<noteq> [] \<and> test s | None \<Rightarrow> False)"

definition attendee_ok :: "jsobj \<Rightarrow> bool" where
  "attendee_ok p \<longleftrightarrow>
     field_ok (\<lambda>_. True) (map_of p ''name'') \<and>
     field_ok email_valid (map_of p ''email'') \<and>
     field_ok phone_valid (map_of p ''phone'')"

subsection \<open>Properties of validateForm\<close>

lemma required_check_Nil [simp]: "required_check v m = [] \<longleftrightarrow> truthy v"
  by (simp add: required_check_def)

lemma format_check_Nil [simp]:
  "format_check t v m = [] \<longleftrightarrow> (case v of Some s \<Rightarrow> s = [] \<or> t s | None \<Rightarrow> True)"
  by (simp add: format_check_def split: option.splits)

lemma field_errors_Nil_iff: "field_errors t v what i = [] \<longleftrightarrow> field_ok t v"
  by (auto simp: field_errors_def field_ok_def truthy_def split: option.splits)

lemma field_errors_length: "length (field_errors t v what i) \<le> 1"
  by (auto simp: field_errors_def required_check_def format_check_def truthy_def split: option.splits)

lemma required_check_name: "required_check v m = [] \<longleftrightarrow> field_ok (\<lambda>_. True) v"
  by (simp add: field_ok_def truthy_def split: option.splits)

lemma person_errors_Nil_iff: "person_errors i p = [] \<longleftrightarrow> attendee_ok p"
  by (simp only: person_errors_def attendee_ok_def append_is_Nil_conv field_errors_Nil_iff
      required_check_name)

lemma person_errors_length: "length (person_errors i p) \<le> 3"
proof -
  have "length (required_check (map_of p ''name'') (msg_for ''Name'' i '' is required.'')) \<le> 1"
    by (simp add: required_check_def)
  then show ?thesis
    using field_errors_length[of email_valid "map_of p ''email''" "''Email Address''" i]
      field_errors_length[of phone_valid "map_of p ''phone''" "''Phone Number''" i]
    unfolding person_errors_def length_append
    by linarith
qed

lemma errors_from_Nil_iff: "errors_from i ps = [] \<longleftrightarrow> (\<forall>p \<in> set ps. attendee_ok p)"
  by (induction ps arbitrary: i) (simp_all add: person_errors_Nil_iff)

lemma errors_from_length: "length (errors_from i ps) \<le> 3 * length ps"
proof (induction ps arbitrary: i)
  case (Cons p ps)
  have "length (errors_from (Suc i) ps) \<le> 3 * length ps" by (rule Cons.IH)
  with person_errors_length[of i p] show ?case by simp
qed simp

lemma errors_from_conv:
  "errors_from i ps = concat (map (\<lambda>(j, p). person_errors j p) (zip [i..<i + length ps] ps))"
proof (induction ps arbitrary: i)
  case (Cons p ps)
  have "[i..<i + length (p # ps)] = i # [Suc i..<Suc i + length ps]"
    by (simp add: upt_rec)
  then show ?case by (simp add: Cons.IH)
qed simp

text \<open>
  Claim C1. \<open>validateForm\<close> returns no message exactly when a screenshot is
  attached and every record of \<open>personDetails\<close> has a non-empty name, an e-mail
  address accepted by the pattern of line 103 and a phone number accepted by the
  pattern of line 111.
\<close>

theorem validateForm_Nil_iff:
  "validateForm pd img = [] \<longleftrightarrow> img \<noteq> None \<and> (\<forall>p \<in> set pd. attendee_ok p)"
  by (auto simp: validateForm_def errors_from_Nil_iff)

theorem validateForm_Nil_iff_witness:
  "validateForm [[(''name'', ''Asha''), (''email'', ''asha@example.com''), (''phone'', ''9876543210'')]]
     (Some (File ''pay.png'')) = [] \<and>
   attendee_ok [(''name'', ''Asha''), (''email'', ''asha@example.com''), (''phone'', ''9876543210'')]"
proof -
  have ok: "attendee_ok [(''name'', ''Asha''), (''email'', ''asha@example.com''), (''phone'', ''9876543210'')]"
    by (simp add: attendee_ok_def field_ok_def) code_simp
  have "Some (File ''pay.png'') \<noteq> None" by simp
  with ok show ?thesis using validateForm_Nil_iff by simp
qed

text \<open>
  Claim C8. A record contributes at most three messages (for each field, the
  "required" and the "invalid" message exclude each other), so there are at most
  \<open>3 n + 1\<close> messages for \<open>n\<close> records.
\<close>

theorem validateForm_length: "length (validateForm pd img) \<le> 3 * length pd + 1"
  using errors_from_length[of 0 pd] by (simp add: validateForm_def)

lemma validateForm_conv:
  "validateForm pd img =
     concat (map (\<lambda>(j, p). person_errors j p) (zip [0..<length pd] pd)) @
     (if img = None then [msg_screenshot] else [])"
  by (simp add: validateForm_def errors_from_conv[of 0])



end
