(* ===== verification/Form.thy ===== *)
theory Form
  imports Validation
begin

text \<open>
  The state of \<open>FormPage\<close> (\<open>src/pages/buy-ticket.tsx\<close>) and its synchronous
  event handlers. The nine \<open>useState\<close> hooks of lines 6--16 are the fields of the
  record \<open>form_state\<close>, with the hooks' initial values in \<open>form_init\<close>. Each
  handler takes the state and returns the state after all of its \<open>set...\<close> calls
  (React applies the queued updates together before the next render):
  \<^item> \<open>mount_effect\<close> is the \<open>useEffect\<close> of lines 18--20 with
    \<open>generateTicketNumber\<close> (lines 22--27); the random draw enters as
    \<open>k = Math.floor(Math.random() * 1000)\<close>, a number below 1000;
  \<^item> \<open>handleTicketTypeChange\<close> (lines 29--33), \<open>handleNumPersonsChange\<close>
    (lines 35--41, which throws \<open>RangeError\<close> from \<open>Array(n)\<close> after it has
    queued the new count), \<open>handlePersonDetailsChange\<close> (lines 43--51),
    \<open>handleTransactionImageChange\<close> (lines 53--59);
  \<^item> \<open>toggleQrCode\<close> (line 264) and \<open>closeModal\<close> (line 135), the two inline
    \<open>onClick\<close> handlers;
  \<^item> \<open>totalAmount\<close> (line 122) and \<open>rows_rendered\<close>/\<open>field_view\<close>, the
    person rows that lines 206--248 render and the values they display.
\<close>

record form_state =
  ticketType :: string
  amount :: int
  numPersons :: jsnum
  showQrCode :: bool
  transactionImage :: "js_file option"
  formSubmitted :: bool
  errors :: "string list"
  personDetails :: "jsobj list"
  ticketNumber :: string

definition ticket_lonely :: string where
  "ticket_lonely = ''Lonely at the top''"

definition ticket_bestie :: string where
  "ticket_bestie = ''Bestie and I''"

definition form_init :: form_state where
  "form_init =
     \<lparr>ticketType = ticket_lonely, amount = 50, numPersons = Num 1, showQrCode = False,
      transactionImage = None, formSubmitted = False, errors = [], personDetails = [],
      ticketNumber = ''''\<rparr>"

definition generateTicketNumber :: "nat \<Rightarrow> string" where
  "generateTicketNumber k = ''GRADPARTY-'' @ pad_start 3 CHR ''0'' (dec_nat k) @ ''/24''"

definition mount_effect :: "nat \<Rightarrow> form_state \<Rightarrow> form_state" where
  "mount_effect k s = s\<lparr>ticketNumber := generateTicketNumber k\<rparr>"

definition ticket_price :: "string \<Rightarrow> int" where
  "ticket_price t = (if t = ticket_lonely then 50 else 80)"

definition handleTicketTypeChange :: "string \<Rightarrow> form_state \<Rightarrow> form_state" where
  "handleTicketTypeChange selectedType s =
     s\<lparr>ticketType := selectedType, amount := ticket_price selectedType\<rparr>"

definition blank_person :: jsobj where
  "blank_person = [(''name'', ''''), (''email'', ''''), (''phone'', '''')]"

definition handleNumPersonsChange :: "string \<Rightarrow> form_state \<Rightarrow> form_state outcome" where
  "handleNumPersonsChange value s =
     (let newNumPersons = parse_int value;
          s1 = s\<lparr>numPersons := newNumPersons\<rparr>
      in case array_ctor newNumPersons of
           Inl e \<Rightarrow> Thrown e s1
         | Inr len \<Rightarrow> Done (s1\<lparr>personDetails := replicate len blank_person\<rparr>))"

text \<open>
  \<open>{ ...newPersonDetails[index], [field]: value }\<close>: spreading \<open>undefined\<close>
  (an index at the end of the array) gives the empty object; the computed key is
  updated in place when present and appended otherwise, which is \<open>AList.update\<close>.
\<close>

definition handlePersonDetailsChange :: "nat \<Rightarrow> string \<Rightarrow> string \<Rightarrow> form_state \<Rightarrow> form_state option" where
  "handlePersonDetailsChange index field value s =
     (let newPersonDetails = personDetails s;
          old = (case js_array_get newPersonDetails index of None \<Rightarrow> [] | Some p \<Rightarrow> p)
      in map_option (\<lambda>pd. s\<lparr>personDetails := pd\<rparr>)
           (js_array_set newPersonDetails index (AList.update field value old)))"

definition handleTransactionImageChange :: "js_file list option \<Rightarrow> form_state \<Rightarrow> form_state" where
  "handleTransactionImageChange files s =
     (case files of Some (f # _) \<Rightarrow> s\<lparr>transactionImage := Some f\<rparr> | _ \<Rightarrow> s)"

definition toggleQrCode :: "form_state \<Rightarrow> form_state" where
  "toggleQrCode s = s\<lparr>showQrCode := \<not> showQrCode s\<rparr>"

definition closeModal :: "form_state \<Rightarrow> form_state" where
  "closeModal s = s\<lparr>formSubmitted := False\<rparr>"

primrec js_times :: "int \<Rightarrow> jsnum \<Rightarrow> jsnum" where
  "js_times a (Num n) = Num (a * n)"
| "js_times a NaN = NaN"

definition totalAmount :: "form_state \<Rightarrow> jsnum" where
  "totalAmount s = js_times (amount s) (numPersons s)"

definition rows_rendered :: "form_state \<Rightarrow> nat" where
  "rows_rendered s = to_length (numPersons s)"

text \<open>\<open>personDetails[index]?.field || ''\<close>\<close>

definition field_view :: "form_state \<Rightarrow> nat \<Rightarrow> string \<Rightarrow> string" where
  "field_view s index field =
     (case js_array_get (personDetails s) index of
        None \<Rightarrow> ''''
      | Some p \<Rightarrow> (case map_of p field of None \<Rightarrow> '''' | Some v \<Rightarrow> v))"

text \<open>Reading a ticket number back (a reference parser, used to state the format).\<close>

definition parse_ticket_number :: "string \<Rightarrow> nat option" where
  "parse_ticket_number t =
     (if length t = 16 \<and> take 10 t = ''GRADPARTY-'' \<and> drop 13 t = ''/24'' \<and>
         list_all is_dec_digit (take 3 (drop 10 t))
      then Some (digits_value (take 3 (drop 10 t))) else None)"

declare form_init_def [handler_defs] mount_effect_def [handler_defs]
  handleTicketTypeChange_def [handler_defs] handleNumPersonsChange_def [handler_defs]
  handlePersonDetailsChange_def [handler_defs] handleTransactionImageChange_def [handler_defs]
  toggleQrCode_def [handler_defs] closeModal_def [handler_defs]

subsection \<open>Properties of the handlers\<close>

lemma length_dec_nat: "n < 10 ^ m \<Longrightarrow> 0 < m \<Longrightarrow> length (dec_nat n) \<le> m"
proof (induction n arbitrary: m rule: dec_nat.induct)
  case (1 n)
  show ?case
  proof (cases "n < 10")
    case True
    with "1.prems" show ?thesis by (subst dec_nat.simps) simp
  next
    case False
    obtain m' where m: "m = Suc m'" using "1.prems" by (cases m) auto
    have "0 < m'"
    proof (rule ccontr)
      assume "\<not> 0 < m'"
      with m "1.prems" have "n < 10" by simp
      with False show False by simp
    qed
    note m = m this
    with "1.prems" have "n div 10 < 10 ^ m'" by (simp add: less_mult_imp_div_less mult.commute)
    with False m "1.IH" have "length (dec_nat (n div 10)) \<le> m'" by simp
    with False m show ?thesis by (subst dec_nat.simps) simp
  qed
qed

lemma digits_value_zeros: "digits_value (replicate m CHR ''0'' @ ds) = digits_value ds"
proof -
  have "foldl (\<lambda>acc c. 10 * acc + digit_val c) 0 (replicate m CHR ''0'') = 0"
    by (induction m) (simp_all add: digit_val_def)
  then show ?thesis by (simp add: digits_value_def)
qed

lemma pad3_dec_nat:
  assumes "k < 1000"
  shows "length (pad_start 3 CHR ''0'' (dec_nat k)) = 3"
    and "list_all is_dec_digit (pad_start 3 CHR ''0'' (dec_nat k))"
    and "digits_value (pad_start 3 CHR ''0'' (dec_nat k)) = k"
proof -
  have "length (dec_nat k) \<le> 3" using assms length_dec_nat[of k 3] by simp
  then show "length (pad_start 3 CHR ''0'' (dec_nat k)) = 3" by simp
  show "list_all is_dec_digit (pad_start 3 CHR ''0'' (dec_nat k))"
    using dec_nat_digits[of k] by (auto simp: pad_start_def list_all_iff is_dec_digit_def)
  show "digits_value (pad_start 3 CHR ''0'' (dec_nat k)) = k"
    by (simp add: pad_start_def digits_value_zeros digits_value_dec_nat)
qed

text \<open>
  Claim C10. For every draw \<open>k < 1000\<close>, the ticket number is
  \<open>GRADPARTY-NNN/24\<close> with \<open>NNN\<close> the three-digit zero-padded \<open>k\<close>: reading
  the number back gives \<open>k\<close>, so distinct draws give distinct ticket numbers.
\<close>

theorem ticket_number_roundtrip:
  "k < 1000 \<Longrightarrow> parse_ticket_number (generateTicketNumber k) = Some k"
  using pad3_dec_nat[of k] by (simp add: parse_ticket_number_def generateTicketNumber_def)


text \<open>
  Claim C6. Selecting a ticket type sets the type and its price and leaves the
  attendee records, the attached screenshot and the attendee count unchanged.
\<close>

theorem ticket_type_frame:
  "personDetails (handleTicketTypeChange t s) = personDetails s \<and>
   transactionImage (handleTicketTypeChange t s) = transactionImage s \<and>
   numPersons (handleTicketTypeChange t s) = numPersons s \<and>
   amount (handleTicketTypeChange t s) = ticket_price t"
  by (simp add: handleTicketTypeChange_def)

text \<open>
  Claim C3. When \<open>handleNumPersonsChange\<close> completes, the roster has exactly as
  many records as the new count, and every record is blank: earlier entries are
  discarded even when the count only grows.
\<close>

theorem handleNumPersonsChange_Done:
  "handleNumPersonsChange v s = Done s' \<Longrightarrow>
     numPersons s' = Num (int (length (personDetails s'))) \<and> (\<forall>p \<in> set (personDetails s'). p = blank_person)"
  by (cases "parse_int v") (auto simp: handleNumPersonsChange_def split: if_splits)

text \<open>
  Claim C4. \<open>handleNumPersonsChange\<close> throws exactly for the inputs that do not
  parse to a length \<open>Array(n)\<close> accepts (empty or non-numeric input, a negative
  number, or one of \<open>2^32\<close> or more), and when it throws, the count has
  already been set to the parsed value while the old roster stays.
\<close>

theorem handleNumPersonsChange_Thrown:
  "handleNumPersonsChange v s = Thrown RangeError (s\<lparr>numPersons := parse_int v\<rparr>) \<longleftrightarrow>
     (parse_int v = NaN \<or> (\<exists>n. parse_int v = Num n \<and> (n < 0 \<or> 2 ^ 32 \<le> n)))"
  by (cases "parse_int v") (auto simp: handleNumPersonsChange_def)

lemma handlePersonDetailsChange_in_range:
  "index < length (personDetails s) \<Longrightarrow>
   handlePersonDetailsChange index field value s =
     Some (s\<lparr>personDetails := (personDetails s)[index := AList.update field value (personDetails s ! index)]\<rparr>)"
  by (simp add: handlePersonDetailsChange_def js_array_get_def js_array_set_def Let_def)

lemma handlePersonDetailsChange_Some:
  "handlePersonDetailsChange index field value s = Some s' \<Longrightarrow>
     \<exists>pd. s' = s\<lparr>personDetails := pd\<rparr> \<and> js_array_set (personDetails s) index
        (AList.update field value (case js_array_get (personDetails s) index of None \<Rightarrow> [] | Some p \<Rightarrow> p)) = Some pd"
  by (auto simp: handlePersonDetailsChange_def Let_def)

lemma js_array_set_get:
  "js_array_set xs i v = Some ys \<Longrightarrow> js_array_get ys j = (if j = i then Some v else js_array_get xs j)"
  by (auto simp: js_array_set_def js_array_get_def nth_append split: if_splits)

text \<open>
  Claim C7. Editing one field of one person makes the rendered input show the
  typed value and leaves every other rendered input unchanged.
\<close>

theorem handlePersonDetailsChange_field_view:
  "handlePersonDetailsChange index field value s = Some s' \<Longrightarrow>
     field_view s' index field = value \<and>
     (\<forall>j g. (j, g) \<noteq> (index, field) \<longrightarrow> field_view s' j g = field_view s j g)"
proof -
  assume h: "handlePersonDetailsChange index field value s = Some s'"
  let ?old = "case js_array_get (personDetails s) index of None \<Rightarrow> [] | Some p \<Rightarrow> p"
  obtain pd where s': "s' = s\<lparr>personDetails := pd\<rparr>"
    and set: "js_array_set (personDetails s) index (AList.update field value ?old) = Some pd"
    using handlePersonDetailsChange_Some[OF h] by blast
  have get: "js_array_get pd j =
      (if j = index then Some (AList.update field value ?old) else js_array_get (personDetails s) j)" for j
    by (rule js_array_set_get[OF set])
  show ?thesis by (auto simp: field_view_def s' get update_conv split: option.splits)
qed

subsection \<open>Witnesses\<close>

theorem handleNumPersonsChange_Done_witness:
  "handleNumPersonsChange ''2'' form_init =
     Done (form_init\<lparr>numPersons := Num 2, personDetails := [blank_person, blank_person]\<rparr>) \<and>
   numPersons (form_init\<lparr>numPersons := Num 2, personDetails := [blank_person, blank_person]\<rparr>) =
     Num (int (length (personDetails (form_init\<lparr>numPersons := Num 2, personDetails := [blank_person, blank_person]\<rparr>)))) \<and>
   list_all (\<lambda>p. p = blank_person)
     (personDetails (form_init\<lparr>numPersons := Num 2, personDetails := [blank_person, blank_person]\<rparr>))"
proof -
  have h: "handleNumPersonsChange ''2'' form_init =
     Done (form_init\<lparr>numPersons := Num 2, personDetails := [blank_person, blank_person]\<rparr>)"
    by (simp add: handleNumPersonsChange_def parse_int_def split_sign_def js_simps digits_value_def numeral_2_eq_2)
  show ?thesis using h handleNumPersonsChange_Done[OF h] by (simp add: list_all_iff)
qed

theorem handlePersonDetailsChange_field_view_witness:
  "handlePersonDetailsChange 0 ''name'' ''Asha'' form_init = Some (form_init\<lparr>personDetails := [[(''name'', ''Asha'')]]\<rparr>) \<and>
   field_view (form_init\<lparr>personDetails := [[(''name'', ''Asha'')]]\<rparr>) 0 ''name'' = ''Asha'' \<and>
   field_view (form_init\<lparr>personDetails := [[(''name'', ''Asha'')]]\<rparr>) 0 ''email'' = field_view form_init 0 ''email'' \<and>
   field_view (form_init\<lparr>personDetails := [[(''name'', ''Asha'')]]\<rparr>) 1 ''name'' = field_view form_init 1 ''name''"
proof -
  have h: "handlePersonDetailsChange 0 ''name'' ''Asha'' form_init = Some (form_init\<lparr>personDetails := [[(''name'', ''Asha'')]]\<rparr>)"
    by (simp add: handlePersonDetailsChange_def form_init_def js_simps)
  note fv = handlePersonDetailsChange_field_view[OF h]
  have e: "(0::nat, ''email'') \<noteq> (0, ''name'')" and n: "(1::nat, ''name'') \<noteq> (0, ''name'')" by simp_all
  show ?thesis
    using h conjunct1[OF fv] conjunct2[OF fv, rule_format, OF e] conjunct2[OF fv, rule_format, OF n]
    by (intro conjI)
qed

theorem ticket_number_roundtrip_witness:
  "(7::nat) < 1000 \<and> parse_ticket_number (generateTicketNumber 7) = Some 7"
  using ticket_number_roundtrip[of 7] by simp

end
