(* ===== verification/Submit.thy ===== *)
theory Submit
  imports Form
begin

text \<open>
  \<open>handleSubmit\<close> of \<open>src/pages/buy-ticket.tsx\<close> (lines 61--93). The function is
  \<open>async\<close>: everything up to the \<open>await fetch(...)\<close> runs synchronously in the
  submit event (\<open>handleSubmit\<close> here), the rest runs later, when the network
  answers (\<open>handleSubmitResponse\<close>). In between the page stays interactive; the
  page theory interleaves the two halves with the other events.
  \<^item> \<open>build_form_data\<close> is the \<open>FormData\<close> of lines 69--75, a list of entries in
    append order; \<open>FormData.append\<close> stores a \<open>File\<close> as a blob and turns any
    other value, \<open>null\<close> included, into a string.
  \<^item> \<open>json_people\<close> is \<open>JSON.stringify(personDetails)\<close> for an array of objects
    with string-valued properties (ECMAScript QuoteJSONString for the escapes).
  \<^item> The answer of \<open>fetch\<close> is an HTTP status with a body, or a rejection with a
    message (a network failure, or a failure while reading the body with
    \<open>response.text()\<close>, both of which end in the \<open>catch\<close>).
  \<^item> \<open>console.log(response)\<close> has no effect on the state and is omitted.
\<close>

datatype fd_value = FD_Str string | FD_Blob js_file

type_synonym form_data = "(string \<times> fd_value) list"

datatype fetch_result = HttpResponse nat string | FetchRejected string

definition submit_url :: string where
  "submit_url = ''https://booking-back-end.vercel.app/submit/''"

definition hex_digit :: "nat \<Rightarrow> char" where
  "hex_digit d = (if d < 10 then char_of (48 + d) else char_of (87 + d))"

definition json_escape_char :: "char \<Rightarrow> string" where
  "json_escape_char c =
     (if c = CHR 0x22 then [CHR 0x5C, CHR 0x22]
      else if c = CHR 0x5C then [CHR 0x5C, CHR 0x5C]
      else if c = CHR 0x08 then [CHR 0x5C, CHR ''b'']
      else if c = CHR 0x0C then [CHR 0x5C, CHR ''f'']
      else if c = CHR 0x0A then [CHR 0x5C, CHR ''n'']
      else if c = CHR 0x0D then [CHR 0x5C, CHR ''r'']
      else if c = CHR 0x09 then [CHR 0x5C, CHR ''t'']
      else if of_char c < (32::nat) then
        [CHR 0x5C, CHR ''u'', CHR ''0'', CHR ''0'', hex_digit (of_char c div 16), hex_digit (of_char c mod 16)]
      else [c])"

definition json_quote :: "string \<Rightarrow> string" where
  "json_quote s = CHR 0x22 # concat (map json_escape_char s) @ [CHR 0x22]"

definition json_object :: "jsobj \<Rightarrow> string" where
  "json_object p = ''{'' @ join_with '','' (map (\<lambda>(k, v). json_quote k @ '':'' @ json_quote v) p) @ ''}''"

definition json_people :: "jsobj list \<Rightarrow> string" where
  "json_people ps = ''['' @ join_with '','' (map json_object ps) @ '']''"

definition fd_file :: "js_file option \<Rightarrow> fd_value" where
  "fd_file f = (case f of Some b \<Rightarrow> FD_Blob b | None \<Rightarrow> FD_Str ''null'')"

definition build_form_data :: "form_state \<Rightarrow> form_data" where
  "build_form_data s =
     [(''ticketNumber'', FD_Str (ticketNumber s)),
      (''ticketType'', FD_Str (ticketType s)),
      (''amount'', FD_Str (dec_int (amount s))),
      (''total'', FD_Str (js_num_to_string (totalAmount s))),
      (''transactionScreenshot'', fd_file (transactionImage s)),
      (''personDetails'', FD_Str (json_people (personDetails s)))]"

text \<open>
  The synchronous half: validate, and either store the messages and return, or
  build the payload and issue the POST (the returned request).
\<close>

definition handleSubmit :: "form_state \<Rightarrow> form_state \<times> form_data option" where
  "handleSubmit s =
     (let validationErrors = validateForm (personDetails s) (transactionImage s)
      in if validationErrors \<noteq> [] then (s\<lparr>errors := validationErrors\<rparr>, None)
         else (s, Some (build_form_data s)))"

definition fetch_ok :: "nat \<Rightarrow> bool" where
  "fetch_ok status \<longleftrightarrow> 200 \<le> status \<and> status \<le> 299"

definition submit_failure :: "string \<Rightarrow> string" where
  "submit_failure msg = ''Failed to submit data: '' @ msg"

text \<open>The continuation after \<open>await fetch(...)\<close>.\<close>

primrec handleSubmitResponse :: "fetch_result \<Rightarrow> form_state \<Rightarrow> form_state" where
  "handleSubmitResponse (HttpResponse status body) s =
     (if fetch_ok status then s\<lparr>formSubmitted := True\<rparr> else s\<lparr>errors := [submit_failure body]\<rparr>)"
| "handleSubmitResponse (FetchRejected msg) s = s\<lparr>errors := [submit_failure msg]\<rparr>"

declare handleSubmit_def [handler_defs]

subsection \<open>Properties of the submission\<close>

text \<open>
  Claim C13. The answer to a POST changes nothing but the confirmation flag and
  the message list: a failure (a status outside 200--299 or a rejected fetch)
  leaves the single message \<open>Failed to submit data: ...\<close> with the entered data
  intact, and a success shows the confirmation without touching the messages.
\<close>

theorem handleSubmitResponse_effect:
  "handleSubmitResponse r s =
     s\<lparr>formSubmitted := (formSubmitted s \<or> (\<exists>st b. r = HttpResponse st b \<and> fetch_ok st)),
       errors := (case r of HttpResponse st b \<Rightarrow> if fetch_ok st then errors s else [submit_failure b]
                          | FetchRejected m \<Rightarrow> [submit_failure m])\<rparr>"
  by (cases r) auto

end
