(* ===== verification/Page.thy ===== *)
theory Page
  imports Submit
begin

text \<open>
  The running page: the form state, the POST requests whose answer has not yet
  been processed (\<open>inflight\<close>), the log of every POST the page issued
  (\<open>posted\<close>), and whether rendering has failed (\<open>crashed\<close>). An \<open>event\<close> is
  what the user or the network can do; \<open>dispatch\<close> is one event handled to
  completion followed by the re-render, \<open>None\<close> when the rendered page offers no
  such event:
  \<^item> the \<open>select\<close> of lines 174--181 offers its two options only;
  \<^item> the person inputs exist for the rows that lines 206--248 render, and each
    row has the three fields \<open>name\<close>, \<open>email\<close>, \<open>phone\<close>;
  \<^item> the \<open>Close\<close> button exists while the modal of lines 126--141 is shown;
  \<^item> a network answer completes one of the requests in flight;
  \<^item> an exception thrown by an event handler is reported by the browser and the
    page goes on with the state updates queued before it; an exception thrown
    while rendering (\<open>Array.from({length: n})\<close> with \<open>n \<ge> 2^32\<close>) unmounts the
    page, which then handles nothing more.
  \<open>reachable\<close> is the set of pages reachable from the mounted page by events;
  \<open>run\<close> replays a list of events.
\<close>

record page =
  form :: form_state
  inflight :: "form_data list"
  posted :: "form_data list"
  crashed :: bool

datatype event =
    SelectTicketType string
  | InputNumPersons string
  | EditPerson nat string string
  | ChooseFiles "js_file list option"
  | ToggleQr
  | SubmitForm
  | Respond nat fetch_result
  | CloseModal

definition page_init :: "nat \<Rightarrow> page" where
  "page_init k = \<lparr>form = mount_effect k form_init, inflight = [], posted = [], crashed = False\<rparr>"

text \<open>Rendering succeeds unless \<open>Array.from\<close> is asked for \<open>2^32\<close> or more rows.\<close>

definition render_ok :: "form_state \<Rightarrow> bool" where
  "render_ok s \<longleftrightarrow> rows_rendered s < 2 ^ 32"

definition commit :: "page \<Rightarrow> form_state \<Rightarrow> page" where
  "commit p s = p\<lparr>form := s, crashed := \<not> render_ok s\<rparr>"

definition person_fields :: "string list" where
  "person_fields = [''name'', ''email'', ''phone'']"

fun dispatch :: "event \<Rightarrow> page \<Rightarrow> page option" where
  "dispatch e p =
     (if crashed p then None else
      case e of
        SelectTicketType t \<Rightarrow>
          if t \<in> set [ticket_lonely, ticket_bestie]
          then Some (commit p (handleTicketTypeChange t (form p))) else None
      | InputNumPersons v \<Rightarrow> Some (commit p (outcome_state (handleNumPersonsChange v (form p))))
      | EditPerson i f v \<Rightarrow>
          if i < rows_rendered (form p) \<and> f \<in> set person_fields
          then map_option (commit p) (handlePersonDetailsChange i f v (form p)) else None
      | ChooseFiles fs \<Rightarrow> Some (commit p (handleTransactionImageChange fs (form p)))
      | ToggleQr \<Rightarrow> Some (commit p (toggleQrCode (form p)))
      | SubmitForm \<Rightarrow>
          (case handleSubmit (form p) of
             (s, None) \<Rightarrow> Some (commit p s)
           | (s, Some req) \<Rightarrow>
               Some ((commit p s)\<lparr>inflight := inflight p @ [req], posted := posted p @ [req]\<rparr>))
      | Respond j r \<Rightarrow>
          if j < length (inflight p)
          then Some ((commit p (handleSubmitResponse r (form p)))\<lparr>inflight := take j (inflight p) @ drop (Suc j) (inflight p)\<rparr>)
          else None
      | CloseModal \<Rightarrow> if formSubmitted (form p) then Some (commit p (closeModal (form p))) else None)"

fun run :: "event list \<Rightarrow> page \<Rightarrow> page option" where
  "run [] p = Some p"
| "run (e # es) p = (case dispatch e p of None \<Rightarrow> None | Some p' \<Rightarrow> run es p')"

inductive reachable :: "page \<Rightarrow> bool" where
  mounted: "k < 1000 \<Longrightarrow> reachable (page_init k)"
| step: "reachable p \<Longrightarrow> dispatch e p = Some p' \<Longrightarrow> reachable p'"

text \<open>Event sequences used in the scenarios below.\<close>

definition run_empty_roster :: "event list" where
  "run_empty_roster = [ChooseFiles (Some [File ''pay.png'']), SubmitForm]"

definition fill_one :: "event list" where
  "fill_one = [EditPerson 0 ''name'' ''Asha'', EditPerson 0 ''email'' ''asha@example.com'',
     EditPerson 0 ''phone'' ''9876543210'']"

subsection \<open>Invariants\<close>

definition price_ok :: "form_state \<Rightarrow> bool" where
  "price_ok s \<longleftrightarrow> ticketType s \<in> set [ticket_lonely, ticket_bestie] \<and> amount s = ticket_price (ticketType s)"

definition ticket_ok :: "form_state \<Rightarrow> bool" where
  "ticket_ok s \<longleftrightarrow> (\<exists>k < 1000. ticketNumber s = generateTicketNumber k)"

text \<open>A payload the page may send: built from a state that passed validation.\<close>

definition payload_ok :: "form_data \<Rightarrow> bool" where
  "payload_ok q \<longleftrightarrow>
     (\<exists>s. q = build_form_data s \<and> validateForm (personDetails s) (transactionImage s) = [] \<and>
          price_ok s \<and> ticket_ok s)"

definition page_inv :: "page \<Rightarrow> bool" where
  "page_inv p \<longleftrightarrow>
     price_ok (form p) \<and> ticket_ok (form p) \<and>
     (\<not> crashed p \<longrightarrow> rows_rendered (form p) \<le> max 1 (length (personDetails (form p)))) \<and>
     (\<forall>q \<in> set (posted p). payload_ok q) \<and> set (inflight p) \<subseteq> set (posted p)"

declare dispatch.simps [simp del]

subsection \<open>Every event keeps the invariant\<close>

lemma dispatch_crashed [simp]: "crashed p \<Longrightarrow> dispatch e p = None"
  by (simp add: dispatch.simps)

lemma form_commit [simp]: "form (commit p s) = s" and posted_commit [simp]: "posted (commit p s) = posted p"
  and inflight_commit [simp]: "inflight (commit p s) = inflight p"
  and crashed_commit [simp]: "crashed (commit p s) \<longleftrightarrow> \<not> render_ok s"
  by (simp_all add: commit_def)

text \<open>The fields that only some handlers write.\<close>

lemma handleNumPersonsChange_keeps:
  "ticketType (outcome_state (handleNumPersonsChange v s)) = ticketType s \<and>
   amount (outcome_state (handleNumPersonsChange v s)) = amount s \<and>
   ticketNumber (outcome_state (handleNumPersonsChange v s)) = ticketNumber s"
  by (simp add: handleNumPersonsChange_def Let_def split: sum.splits)

lemma handlePersonDetailsChange_keeps:
  "handlePersonDetailsChange i f v s = Some s' \<Longrightarrow>
   s' = s\<lparr>personDetails := personDetails s'\<rparr> \<and> length (personDetails s) \<le> length (personDetails s')"
  by (auto simp: handlePersonDetailsChange_def Let_def js_array_set_def split: if_splits)

lemma handleSubmit_keeps:
  "handleSubmit s = (s', r) \<Longrightarrow> s' = s\<lparr>errors := errors s'\<rparr>"
  by (auto simp: handleSubmit_def Let_def split: if_splits)

lemma handleSubmit_posts:
  "handleSubmit s = (s', Some q) \<Longrightarrow> q = build_form_data s \<and> validateForm (personDetails s) (transactionImage s) = []"
  by (auto simp: handleSubmit_def Let_def split: if_splits)

lemma handleSubmitResponse_keeps:
  "handleSubmitResponse r s = s\<lparr>formSubmitted := formSubmitted (handleSubmitResponse r s),
                                 errors := errors (handleSubmitResponse r s)\<rparr>"
  by (cases r) simp_all

lemma count_rows:
  "render_ok (outcome_state (handleNumPersonsChange v s)) \<Longrightarrow>
   rows_rendered (outcome_state (handleNumPersonsChange v s)) \<le>
     max 1 (length (personDetails (outcome_state (handleNumPersonsChange v s))))"
  by (cases "parse_int v")
     (auto simp: handleNumPersonsChange_def render_ok_def rows_rendered_def split: if_splits)

lemma price_ok_frame [simp]:
  "price_ok (s\<lparr>personDetails := x\<rparr>) = price_ok s" "price_ok (s\<lparr>errors := y\<rparr>) = price_ok s"
  "price_ok (s\<lparr>formSubmitted := b\<rparr>) = price_ok s" "price_ok (s\<lparr>showQrCode := c\<rparr>) = price_ok s"
  "price_ok (s\<lparr>transactionImage := f\<rparr>) = price_ok s" "price_ok (s\<lparr>numPersons := n\<rparr>) = price_ok s"
  by (simp_all add: price_ok_def)

lemma ticket_ok_frame [simp]:
  "ticket_ok (s\<lparr>personDetails := x\<rparr>) = ticket_ok s" "ticket_ok (s\<lparr>errors := y\<rparr>) = ticket_ok s"
  "ticket_ok (s\<lparr>formSubmitted := b\<rparr>) = ticket_ok s" "ticket_ok (s\<lparr>showQrCode := c\<rparr>) = ticket_ok s"
  "ticket_ok (s\<lparr>transactionImage := f\<rparr>) = ticket_ok s" "ticket_ok (s\<lparr>numPersons := n\<rparr>) = ticket_ok s"
  "ticket_ok (s\<lparr>ticketType := t, amount := a\<rparr>) = ticket_ok s"
  by (simp_all add: ticket_ok_def)

lemma page_inv_init: "k < 1000 \<Longrightarrow> page_inv (page_init k)"
  by (auto simp: page_inv_def page_init_def price_ok_def ticket_ok_def form_init_def mount_effect_def
      ticket_price_def rows_rendered_def)

lemma dispatch_Some_live: "dispatch e p = Some p' \<Longrightarrow> \<not> crashed p"
  by (simp add: dispatch.simps split: if_splits)

lemma dispatch_inv:
  assumes inv: "page_inv p" and d0: "dispatch e p = Some p'"
  shows "page_inv p'"
proof -
  have nc: "\<not> crashed p" by (rule dispatch_Some_live[OF d0])
  have d: "(case e of
        SelectTicketType t \<Rightarrow>
          if t \<in> set [ticket_lonely, ticket_bestie]
          then Some (commit p (handleTicketTypeChange t (form p))) else None
      | InputNumPersons v \<Rightarrow> Some (commit p (outcome_state (handleNumPersonsChange v (form p))))
      | EditPerson i f v \<Rightarrow>
          if i < rows_rendered (form p) \<and> f \<in> set person_fields
          then map_option (commit p) (handlePersonDetailsChange i f v (form p)) else None
      | ChooseFiles fs \<Rightarrow> Some (commit p (handleTransactionImageChange fs (form p)))
      | ToggleQr \<Rightarrow> Some (commit p (toggleQrCode (form p)))
      | SubmitForm \<Rightarrow>
          (case handleSubmit (form p) of
             (s, None) \<Rightarrow> Some (commit p s)
           | (s, Some req) \<Rightarrow>
               Some ((commit p s)\<lparr>inflight := inflight p @ [req], posted := posted p @ [req]\<rparr>))
      | Respond j r \<Rightarrow>
          if j < length (inflight p)
          then Some ((commit p (handleSubmitResponse r (form p)))\<lparr>inflight := take j (inflight p) @ drop (Suc j) (inflight p)\<rparr>)
          else None
      | CloseModal \<Rightarrow> if formSubmitted (form p) then Some (commit p (closeModal (form p))) else None) = Some p'"
    using d0 nc by (simp add: dispatch.simps)
  show ?thesis
proof (cases e)
  case (SelectTicketType t)
  with inv d nc show ?thesis
    by (auto simp: page_inv_def price_ok_def handleTicketTypeChange_def
        rows_rendered_def split: if_splits)
next
  case (InputNumPersons v)
  have "price_ok (outcome_state (handleNumPersonsChange v (form p))) \<and>
        ticket_ok (outcome_state (handleNumPersonsChange v (form p)))"
    using inv handleNumPersonsChange_keeps[of v "form p"]
    by (simp add: page_inv_def price_ok_def ticket_ok_def)
  with InputNumPersons inv d nc count_rows[of v "form p"] show ?thesis
    by (auto simp: page_inv_def)
next
  case (EditPerson i f v)
  with d obtain s' where h: "handlePersonDetailsChange i f v (form p) = Some s'" and p': "p' = commit p s'"
    by (auto simp: split: if_splits)
  from handlePersonDetailsChange_keeps[OF h] have s': "s' = (form p)\<lparr>personDetails := personDetails s'\<rparr>"
    and len: "length (personDetails (form p)) \<le> length (personDetails s')" by blast+
  have "rows_rendered s' = rows_rendered (form p)"
    by (subst s') (simp add: rows_rendered_def)
  with inv len p' s' EditPerson d nc show ?thesis
    by (auto simp: page_inv_def elim!: allE[where x = i] intro: order_trans
        simp del: price_ok_frame ticket_ok_frame) (metis price_ok_frame(1) ticket_ok_frame(1))+
next
  case (ChooseFiles fs)
  with inv d nc show ?thesis
    by (auto simp: page_inv_def handleTransactionImageChange_def rows_rendered_def
        split: option.splits list.splits)
next
  case ToggleQr
  with inv d nc show ?thesis
    by (auto simp: page_inv_def toggleQrCode_def rows_rendered_def)
next
  case SubmitForm
  obtain s' r where h: "handleSubmit (form p) = (s', r)" by fastforce
  from handleSubmit_keeps[OF h] have s': "s' = (form p)\<lparr>errors := errors s'\<rparr>" .
  have rows: "rows_rendered s' = rows_rendered (form p)" "personDetails s' = personDetails (form p)"
    by (subst s', simp add: rows_rendered_def)+
  have ok: "price_ok s'" "ticket_ok s'" using inv by (subst s', simp add: page_inv_def)+
  show ?thesis
  proof (cases r)
    case None
    with SubmitForm h d nc inv rows ok show ?thesis by (auto simp: page_inv_def)
  next
    case (Some q)
    with handleSubmit_posts[of "form p" s' q] h inv have "payload_ok q"
      by (auto simp: payload_ok_def page_inv_def)
    with Some SubmitForm h d nc inv rows ok show ?thesis by (auto simp: page_inv_def)
  qed
next
  case (Respond j r)
  let ?s' = "handleSubmitResponse r (form p)"
  have s': "?s' = (form p)\<lparr>formSubmitted := formSubmitted ?s', errors := errors ?s'\<rparr>"
    by (rule handleSubmitResponse_keeps)
  have rows: "rows_rendered ?s' = rows_rendered (form p)" "personDetails ?s' = personDetails (form p)"
    by (subst s', simp add: rows_rendered_def)+
  have ok: "price_ok ?s'" "ticket_ok ?s'" using inv by (subst s', simp add: page_inv_def)+
  with Respond d nc inv rows show ?thesis
    by (auto simp: page_inv_def split: if_splits dest!: in_set_takeD in_set_dropD)
next
  case CloseModal
  with inv d nc show ?thesis
    by (auto simp: page_inv_def closeModal_def rows_rendered_def split: if_splits)
qed
qed

lemma reachable_page_inv: "reachable p \<Longrightarrow> page_inv p"
  by (induction rule: reachable.induct) (auto intro: page_inv_init dispatch_inv)

subsection \<open>Consequences for the running page\<close>

lemmas page_eval = dispatch.simps page_init_def commit_def handler_defs Let_def render_ok_def
  rows_rendered_def validateForm_def build_form_data_def totalAmount_def js_simps
  parse_int_def split_sign_def digits_value_def

lemma reachable_run: "reachable p \<Longrightarrow> run es p = Some p' \<Longrightarrow> reachable p'"
proof (induction es arbitrary: p)
  case (Cons e es)
  then show ?case by (auto intro: reachable.step split: option.splits)
qed simp

lemma reachable_run_init: "k < 1000 \<Longrightarrow> run es (page_init k) = Some p \<Longrightarrow> reachable p"
  by (rule reachable_run[OF reachable.mounted])

text \<open>
  Claim C2. Every POST the page has issued carries the payload of a form state
  that passed \<open>validateForm\<close> and whose price matches its ticket type.
\<close>

theorem posted_payload_validated:
  assumes "reachable p" and "q \<in> set (posted p)"
  shows "\<exists>s. q = build_form_data s \<and> validateForm (personDetails s) (transactionImage s) = [] \<and>
             ticketType s \<in> set [ticket_lonely, ticket_bestie] \<and> amount s = ticket_price (ticketType s)"
  using reachable_page_inv[OF assms(1)] assms(2) by (auto simp: page_inv_def payload_ok_def price_ok_def)

lemma run_empty_roster_posted:
  "map_option posted (run run_empty_roster (page_init 7)) =
     Some [[(''ticketNumber'', FD_Str ''GRADPARTY-007/24''), (''ticketType'', FD_Str ''Lonely at the top''),
         (''amount'', FD_Str ''50''), (''total'', FD_Str ''50''),
         (''transactionScreenshot'', FD_Blob (File ''pay.png'')), (''personDetails'', FD_Str ''[]'')]]"
  by (simp add: run_empty_roster_def page_eval) code_simp

theorem posted_payload_validated_witness:
  "reachable (the (run run_empty_roster (page_init 7))) \<and>
   [(''ticketNumber'', FD_Str ''GRADPARTY-007/24''), (''ticketType'', FD_Str ''Lonely at the top''),
         (''amount'', FD_Str ''50''), (''total'', FD_Str ''50''),
         (''transactionScreenshot'', FD_Blob (File ''pay.png'')), (''personDetails'', FD_Str ''[]'')]
     \<in> set (posted (the (run run_empty_roster (page_init 7)))) \<and>
   (\<exists>s. [(''ticketNumber'', FD_Str ''GRADPARTY-007/24''), (''ticketType'', FD_Str ''Lonely at the top''),
         (''amount'', FD_Str ''50''), (''total'', FD_Str ''50''),
         (''transactionScreenshot'', FD_Blob (File ''pay.png'')), (''personDetails'', FD_Str ''[]'')]
         = build_form_data s \<and> validateForm (personDetails s) (transactionImage s) = [] \<and>
         ticketType s \<in> set [ticket_lonely, ticket_bestie] \<and> amount s = ticket_price (ticketType s))"
proof -
  obtain p where r: "run run_empty_roster (page_init 7) = Some p"
    using run_empty_roster_posted by fastforce
  have reach: "reachable p" by (rule reachable_run_init[OF _ r]) simp
  have q: "[(''ticketNumber'', FD_Str ''GRADPARTY-007/24''), (''ticketType'', FD_Str ''Lonely at the top''),
         (''amount'', FD_Str ''50''), (''total'', FD_Str ''50''),
         (''transactionScreenshot'', FD_Blob (File ''pay.png'')), (''personDetails'', FD_Str ''[]'')]
     \<in> set (posted p)"
    using run_empty_roster_posted r by simp
  show ?thesis using posted_payload_validated[OF reach q] reach q r by simp
qed

text \<open>
  Claim C12. In every reachable live page, every person input the page renders
  can be edited within the model: the write \<open>newPersonDetails[index]\<close> never
  lands beyond the end of the array, so the form never creates holes.
\<close>

theorem edit_events_handled:
  assumes "reachable p" and "\<not> crashed p" and "i < rows_rendered (form p)" and "f \<in> set person_fields"
  shows "\<exists>p'. dispatch (EditPerson i f v) p = Some p'"
proof -
  from reachable_page_inv[OF assms(1)] assms(2,3) have "i \<le> length (personDetails (form p))"
    by (auto simp: page_inv_def)
  then show ?thesis using assms(2-4)
    by (auto simp: dispatch.simps handlePersonDetailsChange_def Let_def js_array_set_def)
qed

theorem edit_events_handled_witness:
  "reachable (page_init 7) \<and> \<not> crashed (page_init 7) \<and> 0 < rows_rendered (form (page_init 7)) \<and>
   ''name'' \<in> set person_fields \<and> (\<exists>p'. dispatch (EditPerson 0 ''name'' ''Asha'') (page_init 7) = Some p')"
proof -
  have r: "reachable (page_init 7)" by (rule reachable.mounted) simp
  have h: "\<not> crashed (page_init 7)" "0 < rows_rendered (form (page_init 7))" "''name'' \<in> set person_fields"
    by (simp_all add: page_init_def rows_rendered_def form_init_def mount_effect_def person_fields_def)
  note h = r h
  show ?thesis using h edit_events_handled[OF h] by blast
qed

text \<open>
  Claim C11. In every reachable page the ticket type is one of the two options
  and the amount is that option's price, and the ticket number is the one drawn
  at mount, \<open>GRADPARTY-NNN/24\<close> for some draw below 1000.
\<close>

theorem reachable_form_consistent:
  assumes "reachable p"
  shows "ticketType (form p) \<in> set [ticket_lonely, ticket_bestie] \<and>
         amount (form p) = ticket_price (ticketType (form p)) \<and>
         (\<exists>k < 1000. ticketNumber (form p) = generateTicketNumber k)"
  using reachable_page_inv[OF assms] by (simp add: page_inv_def price_ok_def ticket_ok_def)

theorem reachable_form_consistent_witness:
  "reachable (page_init 7) \<and> ticketType (form (page_init 7)) \<in> set [ticket_lonely, ticket_bestie] \<and>
   amount (form (page_init 7)) = ticket_price (ticketType (form (page_init 7))) \<and>
   (\<exists>k < 1000. ticketNumber (form (page_init 7)) = generateTicketNumber k)"
proof -
  have r: "reachable (page_init 7)" by (rule reachable.mounted) simp
  show ?thesis using r reachable_form_consistent[OF r] by blast
qed

end
