(* ===== verification/Order.thy ===== *)
theory Order
  imports Page
begin

text \<open>
  The abstract order of the specification (its section 3, \<open>TicketSelection\<close>,
  \<open>AttendeeDetail\<close>, \<open>OrderState\<close>) with the operations its section 4 describes,
  and the abstraction \<open>abs_form\<close> from the form state of
  \<open>src/pages/buy-ticket.tsx\<close> to it. \<open>abs_form\<close> is defined where the form
  agrees with the specification's data invariant: a count \<open>n \<ge> 1\<close>, a roster of
  exactly \<open>n\<close> records, a ticket type that is one of the two options and the
  amount of that option. Where it is defined, each handler of the form
  implements the corresponding abstract operation (a forward simulation), the
  total shown is the abstract total price, and \<open>validateForm\<close> computes the
  abstract validation of the order. Where it is not defined (the initial
  state, whose roster is empty while the count is 1, and any count that is not
  a positive integer) the form is outside the specification's contract.
\<close>

datatype ticket_selection = LonelyAtTheTop | BestieAndI

primrec unit_price :: "ticket_selection \<Rightarrow> int" where
  "unit_price LonelyAtTheTop = 50"
| "unit_price BestieAndI = 80"

primrec selection_label :: "ticket_selection \<Rightarrow> string" where
  "selection_label LonelyAtTheTop = ticket_lonely"
| "selection_label BestieAndI = ticket_bestie"

record attendee =
  att_name :: string
  att_email :: string
  att_phone :: string

definition blank_attendee :: attendee where
  "blank_attendee = \<lparr>att_name = [], att_email = [], att_phone = []\<rparr>"

record order =
  selection :: ticket_selection
  attendeeCount :: nat
  attendees :: "attendee list"
  paymentProof :: "js_file option"
  ticketReference :: string

definition order_inv :: "order \<Rightarrow> bool" where
  "order_inv ord \<longleftrightarrow> 1 \<le> attendeeCount ord \<and> length (attendees ord) = attendeeCount ord"

subsection \<open>Abstract operations\<close>

definition select_ticket :: "ticket_selection \<Rightarrow> order \<Rightarrow> order" where
  "select_ticket t ord = ord\<lparr>selection := t\<rparr>"

text \<open>The resize policy the code follows: every resize discards the roster.\<close>

definition set_attendee_count :: "nat \<Rightarrow> order \<Rightarrow> order" where
  "set_attendee_count n ord = ord\<lparr>attendeeCount := n, attendees := replicate n blank_attendee\<rparr>"

definition set_field :: "string \<Rightarrow> string \<Rightarrow> attendee \<Rightarrow> attendee" where
  "set_field f v a =
     (if f = ''name'' then a\<lparr>att_name := v\<rparr>
      else if f = ''email'' then a\<lparr>att_email := v\<rparr>
      else if f = ''phone'' then a\<lparr>att_phone := v\<rparr> else a)"

definition set_attendee_field :: "nat \<Rightarrow> string \<Rightarrow> string \<Rightarrow> order \<Rightarrow> order" where
  "set_attendee_field i f v ord = ord\<lparr>attendees := (attendees ord)[i := set_field f v (attendees ord ! i)]\<rparr>"

definition attach_proof :: "js_file \<Rightarrow> order \<Rightarrow> order" where
  "attach_proof b ord = ord\<lparr>paymentProof := Some b\<rparr>"

definition total_price :: "order \<Rightarrow> int" where
  "total_price ord = unit_price (selection ord) * int (attendeeCount ord)"

text \<open>
  Abstract validation (section 4.3 of the specification): per attendee in index
  order the name, the email and the phone, each either missing or malformed,
  then the attachment.
\<close>

definition check_field :: "(string \<Rightarrow> bool) \<Rightarrow> string \<Rightarrow> string \<Rightarrow> nat \<Rightarrow> string list" where
  "check_field test v what i =
     (if v = [] then [msg_for what i '' is required.'']
      else if test v then [] else [msg_for what i '' is invalid.''])"

definition attendee_errors :: "nat \<Rightarrow> attendee \<Rightarrow> string list" where
  "attendee_errors i a =
     (if att_name a = [] then [msg_for ''Name'' i '' is required.''] else []) @
     check_field email_valid (att_email a) ''Email Address'' i @
     check_field phone_valid (att_phone a) ''Phone Number'' i"

definition validate_order :: "order \<Rightarrow> string list" where
  "validate_order ord =
     concat (map (\<lambda>(i, a). attendee_errors i a) (zip [0..<length (attendees ord)] (attendees ord))) @
     (case paymentProof ord of None \<Rightarrow> [msg_screenshot] | Some _ \<Rightarrow> [])"

subsection \<open>Abstraction of the form state\<close>

text \<open>\<open>personDetails[index]?.field || ''\<close>, the value the row shows.\<close>

definition prop_or_empty :: "jsobj \<Rightarrow> string \<Rightarrow> string" where
  "prop_or_empty p f = (case map_of p f of None \<Rightarrow> [] | Some v \<Rightarrow> v)"

definition abs_person :: "jsobj \<Rightarrow> attendee" where
  "abs_person p =
     \<lparr>att_name = prop_or_empty p ''name'', att_email = prop_or_empty p ''email'',
      att_phone = prop_or_empty p ''phone''\<rparr>"

definition abs_selection :: "string \<Rightarrow> ticket_selection option" where
  "abs_selection t =
     (if t = ticket_lonely then Some LonelyAtTheTop
      else if t = ticket_bestie then Some BestieAndI else None)"

definition abs_form :: "form_state \<Rightarrow> order option" where
  "abs_form s =
     (case (abs_selection (ticketType s), numPersons s) of
        (Some t, Num n) \<Rightarrow>
          if 1 \<le> n \<and> length (personDetails s) = nat n \<and> amount s = unit_price t
          then Some \<lparr>selection = t, attendeeCount = nat n, attendees = map abs_person (personDetails s),
                     paymentProof = transactionImage s, ticketReference = ticketNumber s\<rparr>
          else None
      | _ \<Rightarrow> None)"

subsection \<open>Refinement lemmas\<close>

lemma abs_selection_label [simp]: "abs_selection (selection_label t) = Some t"
  by (cases t) (simp_all add: abs_selection_def ticket_lonely_def ticket_bestie_def)

lemma ticket_price_label [simp]: "ticket_price (selection_label t) = unit_price t"
  by (cases t) (simp_all add: ticket_price_def ticket_lonely_def ticket_bestie_def)

lemma abs_form_SomeE:
  assumes "abs_form s = Some ord"
  obtains t n where "abs_selection (ticketType s) = Some t" "numPersons s = Num n" "1 \<le> n"
    "length (personDetails s) = nat n" "amount s = unit_price t"
    "ord = \<lparr>selection = t, attendeeCount = nat n, attendees = map abs_person (personDetails s),
          paymentProof = transactionImage s, ticketReference = ticketNumber s\<rparr>"
  using assms by (auto simp: abs_form_def split: option.splits jsnum.splits if_splits)

lemma abs_form_order_inv: "abs_form s = Some ord \<Longrightarrow> order_inv ord"
  by (erule abs_form_SomeE) (simp add: order_inv_def)

lemma person_errors_abs: "person_errors i p = attendee_errors i (abs_person p)"
  by (simp add: person_errors_def attendee_errors_def field_errors_def check_field_def abs_person_def
      prop_or_empty_def required_check_def format_check_def truthy_def split: option.splits)

lemma abs_person_update:
  "f \<in> set person_fields \<Longrightarrow> abs_person (AList.update f v p) = set_field f v (abs_person p)"
  by (auto simp: person_fields_def abs_person_def set_field_def prop_or_empty_def update_conv')

lemma map_abs_person_update:
  "i < length pd \<Longrightarrow> f \<in> set person_fields \<Longrightarrow>
   map abs_person (pd[i := AList.update f v (pd ! i)]) =
     (map abs_person pd)[i := set_field f v (map abs_person pd ! i)]"
  by (simp add: map_update abs_person_update)

lemma handleNumPersonsChange_range:
  "parse_int v = Num n \<Longrightarrow> 0 \<le> n \<Longrightarrow> n < 2 ^ 32 \<Longrightarrow>
   handleNumPersonsChange v s = Done (s\<lparr>numPersons := Num n, personDetails := replicate (nat n) blank_person\<rparr>)"
  by (simp add: handleNumPersonsChange_def array_ctor_def)

lemma map2_map_right: "map2 f xs (map g ys) = map2 (\<lambda>x y. f x (g y)) xs ys"
  by (simp add: zip_map2 comp_def case_prod_beta)

lemma abs_person_blank [simp]: "abs_person blank_person = blank_attendee"
  by (simp add: abs_person_def blank_person_def blank_attendee_def prop_or_empty_def)

lemma abs_form_one_blank:
  "abs_form (form_init\<lparr>personDetails := [blank_person]\<rparr>) =
     Some \<lparr>selection = LonelyAtTheTop, attendeeCount = 1, attendees = [blank_attendee],
           paymentProof = None, ticketReference = []\<rparr>"
  by (simp add: abs_form_def form_init_def abs_selection_def)

text \<open>
  Claim C15. Validation refines the specification's validation: on a form state
  inside the contract, \<open>validateForm\<close> returns exactly the messages of the
  abstract validation of the order the state represents, in the same order.
\<close>

theorem validateForm_refines:
  assumes "abs_form s = Some ord"
  shows "validateForm (personDetails s) (transactionImage s) = validate_order ord"
  using assms
  by (elim abs_form_SomeE) (simp add: validateForm_conv validate_order_def person_errors_abs
      map2_map_right split: option.splits)

theorem validateForm_refines_witness:
  "abs_form (form_init\<lparr>personDetails := [blank_person]\<rparr>) =
     Some \<lparr>selection = LonelyAtTheTop, attendeeCount = 1, attendees = [blank_attendee],
           paymentProof = None, ticketReference = []\<rparr> \<and>
   validateForm [blank_person] None =
     validate_order \<lparr>selection = LonelyAtTheTop, attendeeCount = 1, attendees = [blank_attendee],
           paymentProof = None, ticketReference = []\<rparr>"
  using abs_form_one_blank validateForm_refines[OF abs_form_one_blank] by (simp add: form_init_def)


text \<open>
  Claim C16. Changing the number of persons to a parsed value \<open>n\<close> with
  \<open>1 \<le> n < 2^32\<close> refines the specification's \<open>setAttendeeCount(n)\<close> under the
  discard-all resize policy: the handler completes without an exception and the
  new state represents the order with count \<open>n\<close> and \<open>n\<close> blank attendees.
\<close>

theorem handleNumPersonsChange_refines:
  assumes "abs_form s = Some ord" and "parse_int v = Num n" and "1 \<le> n" and "n < 2 ^ 32"
  shows "\<exists>s'. handleNumPersonsChange v s = Done s' \<and> abs_form s' = Some (set_attendee_count (nat n) ord)"
  using assms(1) handleNumPersonsChange_range[OF assms(2) _ assms(4)] assms(3)
  by (elim abs_form_SomeE) (simp add: abs_form_def set_attendee_count_def)

theorem handleNumPersonsChange_refines_witness:
  "abs_form (form_init\<lparr>personDetails := [blank_person]\<rparr>) =
     Some \<lparr>selection = LonelyAtTheTop, attendeeCount = 1, attendees = [blank_attendee],
           paymentProof = None, ticketReference = []\<rparr> \<and>
   parse_int ''2'' = Num 2 \<and> 1 \<le> (2::int) \<and> (2::int) < 2 ^ 32 \<and>
   (\<exists>s'. handleNumPersonsChange ''2'' (form_init\<lparr>personDetails := [blank_person]\<rparr>) = Done s' \<and>
      abs_form s' = Some (set_attendee_count (nat 2)
        \<lparr>selection = LonelyAtTheTop, attendeeCount = 1, attendees = [blank_attendee],
           paymentProof = None, ticketReference = []\<rparr>))"
proof -
  have p: "parse_int ''2'' = Num 2"
    by (simp add: parse_int_def split_sign_def digits_value_def js_simps)
  show ?thesis
    using abs_form_one_blank p handleNumPersonsChange_refines[OF abs_form_one_blank p] by simp
qed

text \<open>
  Claim C17. Editing field \<open>f\<close> (one of name, email, phone) of attendee \<open>i\<close>
  below the count refines \<open>setAttendeeField(i, f, v)\<close>: the handler writes
  inside the array and the new state represents the order in which exactly that
  field of exactly that attendee is \<open>v\<close>.
\<close>

theorem handlePersonDetailsChange_refines:
  assumes "abs_form s = Some ord" and "i < attendeeCount ord" and "f \<in> set person_fields"
  shows "\<exists>s'. handlePersonDetailsChange i f v s = Some s' \<and> abs_form s' = Some (set_attendee_field i f v ord)"
  using assms(1)
proof (elim abs_form_SomeE)
  fix t n
  assume sel: "abs_selection (ticketType s) = Some t" and num: "numPersons s = Num n" and n: "1 \<le> n"
    and len: "length (personDetails s) = nat n" and am: "amount s = unit_price t"
    and o: "ord = \<lparr>selection = t, attendeeCount = nat n, attendees = map abs_person (personDetails s),
          paymentProof = transactionImage s, ticketReference = ticketNumber s\<rparr>"
  have i: "i < length (personDetails s)" using assms(2) o len by simp
  show ?thesis
    using handlePersonDetailsChange_in_range[OF i] map_abs_person_update[OF i assms(3)] sel num n len am o i
    by (simp add: abs_form_def set_attendee_field_def)
qed

theorem handlePersonDetailsChange_refines_witness:
  "abs_form (form_init\<lparr>personDetails := [blank_person]\<rparr>) =
     Some \<lparr>selection = LonelyAtTheTop, attendeeCount = 1, attendees = [blank_attendee],
           paymentProof = None, ticketReference = []\<rparr> \<and>
   0 < attendeeCount \<lparr>selection = LonelyAtTheTop, attendeeCount = 1, attendees = [blank_attendee],
           paymentProof = None, ticketReference = []\<rparr> \<and>
   ''email'' \<in> set person_fields \<and>
   (\<exists>s'. handlePersonDetailsChange 0 ''email'' ''asha@example.com''
           (form_init\<lparr>personDetails := [blank_person]\<rparr>) = Some s' \<and>
      abs_form s' = Some (set_attendee_field 0 ''email'' ''asha@example.com''
        \<lparr>selection = LonelyAtTheTop, attendeeCount = 1, attendees = [blank_attendee],
           paymentProof = None, ticketReference = []\<rparr>))"
proof -
  have h: "0 < attendeeCount \<lparr>selection = LonelyAtTheTop, attendeeCount = 1, attendees = [blank_attendee],
           paymentProof = None, ticketReference = []\<rparr>" "''email'' \<in> set person_fields"
    by (simp_all add: person_fields_def)
  show ?thesis using abs_form_one_blank h handlePersonDetailsChange_refines[OF abs_form_one_blank h] by simp
qed

text \<open>
  Claim C18. Choosing one of the two ticket options refines \<open>select\<close>: the
  state represents the same order with the new selection, so the attendees, the
  attachment and the reference are untouched and the amount follows the option.
\<close>

theorem handleTicketTypeChange_refines:
  "abs_form s = Some ord \<Longrightarrow>
   abs_form (handleTicketTypeChange (selection_label t) s) = Some (select_ticket t ord)"
  by (elim abs_form_SomeE) (simp add: abs_form_def handleTicketTypeChange_def select_ticket_def)

theorem handleTicketTypeChange_refines_witness:
  "abs_form (form_init\<lparr>personDetails := [blank_person]\<rparr>) =
     Some \<lparr>selection = LonelyAtTheTop, attendeeCount = 1, attendees = [blank_attendee],
           paymentProof = None, ticketReference = []\<rparr> \<and>
   abs_form (handleTicketTypeChange (selection_label BestieAndI) (form_init\<lparr>personDetails := [blank_person]\<rparr>)) =
     Some (select_ticket BestieAndI \<lparr>selection = LonelyAtTheTop, attendeeCount = 1, attendees = [blank_attendee],
           paymentProof = None, ticketReference = []\<rparr>)"
  using abs_form_one_blank handleTicketTypeChange_refines[OF abs_form_one_blank, of BestieAndI] by simp

lemma handleTransactionImageChange_refines:
  "abs_form s = Some ord \<Longrightarrow>
   abs_form (handleTransactionImageChange fs s) =
     Some (case fs of Some (b # _) \<Rightarrow> attach_proof b ord | _ \<Rightarrow> ord)"
  by (elim abs_form_SomeE)
     (simp add: abs_form_def handleTransactionImageChange_def attach_proof_def split: option.splits list.splits)

end
