(* ===== verification/Json.thy ===== *)
theory Json
  imports Submit "HOL-Library.Monad_Syntax"
begin

text \<open>
  A reference decoder for the \<open>personDetails\<close> field of the payload: the JSON
  text that \<open>JSON.stringify(personDetails)\<close> (line 75 of
  \<open>src/pages/buy-ticket.tsx\<close>, \<open>json_people\<close> in the submission theory)
  produces, read back as the receiving service's \<open>JSON.parse\<close> reads it: string
  literals with the escapes of RFC 8259 (\<open>json_str\<close>), objects of string
  members and arrays of objects (\<open>json_seq\<close>, \<open>json_more\<close>). The decoder is a
  specification of the receiving side, not code of the repository. A sequence
  of \<open>n\<close> items is read with fuel \<open>n\<close>, the length of the text, which is
  enough since every item takes at least one character. The theorem
  \<open>json_people_roundtrip\<close> shows that the service recovers exactly the roster
  the page held, whatever characters the attendees typed.
\<close>

definition hex_val :: "char \<Rightarrow> nat option" where
  "hex_val c =
     (let n = of_char c :: nat in
      if 48 \<le> n \<and> n \<le> 57 then Some (n - 48)
      else if 97 \<le> n \<and> n \<le> 102 then Some (n - 87)
      else if 65 \<le> n \<and> n \<le> 70 then Some (n - 55)
      else None)"

fun json_str :: "string \<Rightarrow> string \<Rightarrow> (string \<times> string) option" where
  "json_str acc [] = None"
| "json_str acc (c # cs) =
     (if c = CHR 0x22 then Some (rev acc, cs)
      else if c = CHR 0x5C then
        (case cs of
           [] \<Rightarrow> None
         | d # ds \<Rightarrow>
             if d = CHR 0x22 \<or> d = CHR 0x5C \<or> d = CHR ''/'' then json_str (d # acc) ds
             else if d = CHR ''b'' then json_str (CHR 0x08 # acc) ds
             else if d = CHR ''f'' then json_str (CHR 0x0C # acc) ds
             else if d = CHR ''n'' then json_str (CHR 0x0A # acc) ds
             else if d = CHR ''r'' then json_str (CHR 0x0D # acc) ds
             else if d = CHR ''t'' then json_str (CHR 0x09 # acc) ds
             else if d = CHR ''u'' then
               (case ds of
                  h1 # h2 # h3 # h4 # rest \<Rightarrow>
                    (case (hex_val h1, hex_val h2, hex_val h3, hex_val h4) of
                       (Some a, Some b, Some e, Some f) \<Rightarrow>
                         (let v = ((a * 16 + b) * 16 + e) * 16 + f in
                          if v < 256 then json_str (char_of v # acc) rest else None)
                     | _ \<Rightarrow> None)
                | _ \<Rightarrow> None)
             else None)
      else if of_char c < (32::nat) then None
      else json_str (c # acc) cs)"

definition expect :: "char \<Rightarrow> string \<Rightarrow> string option" where
  "expect c s = (case s of d # r \<Rightarrow> if d = c then Some r else None | [] \<Rightarrow> None)"

definition json_pair :: "string \<Rightarrow> ((string \<times> string) \<times> string) option" where
  "json_pair s = do {
     s1 \<leftarrow> expect CHR 0x22 s;
     (k, s2) \<leftarrow> json_str [] s1;
     s3 \<leftarrow> expect CHR '':'' s2;
     s4 \<leftarrow> expect CHR 0x22 s3;
     (v, s5) \<leftarrow> json_str [] s4;
     Some ((k, v), s5)
   }"

fun json_more :: "nat \<Rightarrow> (string \<Rightarrow> ('a \<times> string) option) \<Rightarrow> char \<Rightarrow> string \<Rightarrow> ('a list \<times> string) option" where
  "json_more 0 p close s = None"
| "json_more (Suc n) p close s = do {
     (x, r) \<leftarrow> p s;
     (case r of
        [] \<Rightarrow> None
      | c # r' \<Rightarrow>
          if c = CHR '','' then do { (xs, r'') \<leftarrow> json_more n p close r'; Some (x # xs, r'') }
          else if c = close then Some ([x], r')
          else None)
   }"

definition json_seq :: "char \<Rightarrow> char \<Rightarrow> (string \<Rightarrow> ('a \<times> string) option) \<Rightarrow> string \<Rightarrow> ('a list \<times> string) option" where
  "json_seq opn close p s = do {
     r \<leftarrow> expect opn s;
     (case r of
        [] \<Rightarrow> None
      | d # r' \<Rightarrow> if d = close then Some ([], r') else json_more (length r) p close r)
   }"

definition json_parse_people :: "string \<Rightarrow> jsobj list option" where
  "json_parse_people s =
     (case json_seq CHR ''['' CHR '']'' (json_seq CHR ''{'' CHR ''}'' json_pair) s of
        Some (ps, []) \<Rightarrow> Some ps
      | _ \<Rightarrow> None)"

lemma hex_val_hex_digit [simp]: "d < 16 \<Longrightarrow> hex_val (hex_digit d) = Some d"
  by (auto simp: hex_val_def hex_digit_def Let_def)

lemma hex_val_zero [simp]: "hex_val CHR ''0'' = Some 0"
  by (simp add: hex_val_def)

lemma json_str_escape_char:
  "json_str acc (json_escape_char c @ rest) = json_str (c # acc) rest"
proof -
  consider "c = CHR 0x22" | "c = CHR 0x5C" | "c = CHR 0x08" | "c = CHR 0x0C" | "c = CHR 0x0A"
    | "c = CHR 0x0D" | "c = CHR 0x09"
    | "c \<notin> {CHR 0x22, CHR 0x5C, CHR 0x08, CHR 0x0C, CHR 0x0A, CHR 0x0D, CHR 0x09}" "of_char c < (32::nat)"
    | "c \<notin> {CHR 0x22, CHR 0x5C, CHR 0x08, CHR 0x0C, CHR 0x0A, CHR 0x0D, CHR 0x09}" "\<not> of_char c < (32::nat)"
    by blast
  then show ?thesis
  proof cases
    case 8
    have "(of_char c div 16) * 16 + of_char c mod 16 = (of_char c :: nat)" by simp
    moreover have "of_char c div 16 < (16::nat)" using 8(2) by simp
    ultimately show ?thesis using 8
      by (simp add: json_escape_char_def Let_def hex_val_hex_digit)
  next
    case 9
    then show ?thesis by (auto simp add: json_escape_char_def)
  qed (simp_all add: json_escape_char_def)
qed

lemma json_str_escaped:
  "json_str acc (concat (map json_escape_char s) @ CHR 0x22 # rest) = Some (rev acc @ s, rest)"
  by (induction s arbitrary: acc) (simp_all add: json_str_escape_char)

lemma json_pair_quote:
  "json_pair (json_quote k @ CHR '':'' # json_quote v @ rest) = Some ((k, v), rest)"
  by (simp add: json_pair_def json_quote_def expect_def json_str_escaped)

lemma length_join_with:
  "\<forall>x \<in> set xs. f x \<noteq> [] \<Longrightarrow> length xs \<le> length (join_with sep (map f xs))"
proof (induction xs)
  case (Cons x xs)
  then obtain c t where "f x = c # t" by (cases "f x") auto
  with Cons show ?case by (cases xs) auto
qed simp

lemma json_more_join:
  assumes "\<forall>x \<in> set xs. \<forall>t. p (f x @ t) = Some (x, t)" and "close \<noteq> CHR '',''"
    and "xs \<noteq> []" and "length xs \<le> n"
  shows "json_more n p close (join_with '','' (map f xs) @ close # rest) = Some (xs, rest)"
  using assms
proof (induction xs arbitrary: n)
  case (Cons x xs)
  then obtain m where n: "n = Suc m" by (cases n) auto
  show ?case
  proof (cases xs)
    case Nil
    with Cons.prems n show ?thesis by simp
  next
    case (Cons y ys)
    with Cons.IH[of m] Cons.prems n show ?thesis by simp
  qed
qed simp

lemma json_seq_join:
  assumes "\<forall>x \<in> set xs. \<forall>t. p (f x @ t) = Some (x, t)" and "close \<noteq> CHR '',''"
    and "\<forall>x \<in> set xs. f x \<noteq> [] \<and> hd (f x) \<noteq> close"
  shows "json_seq opn close p (opn # join_with '','' (map f xs) @ close # rest) = Some (xs, rest)"
proof (cases xs)
  case Nil
  then show ?thesis by (simp add: json_seq_def expect_def)
next
  case (Cons y ys)
  from assms(3) have len: "length xs \<le> length (join_with '','' (map f xs) @ close # rest)"
    using length_join_with[of xs f "'',''"] by simp
  from assms(3) Cons obtain c t where fy: "f y = c # t" "c \<noteq> close" by (cases "f y") auto
  obtain r' where r': "join_with '','' (map f xs) @ close # rest = c # r'"
    using Cons fy by (cases ys) simp_all
  have "json_more (length (join_with '','' (map f xs) @ close # rest)) p close
          (join_with '','' (map f xs) @ close # rest) = Some (xs, rest)"
    using json_more_join[OF assms(1,2) _ len] Cons by simp
  with r' fy show ?thesis
    by (simp add: json_seq_def expect_def)
qed

lemma json_object_parse:
  "json_seq CHR ''{'' CHR ''}'' json_pair (json_object p @ t) = Some (p, t)"
proof -
  have "json_seq CHR ''{'' CHR ''}'' json_pair
          (CHR ''{'' # join_with '','' (map (\<lambda>(k, v). json_quote k @ '':'' @ json_quote v) p) @ CHR ''}'' # t)
        = Some (p, t)"
  proof (rule json_seq_join)
    show "\<forall>x \<in> set p. \<forall>t. json_pair ((\<lambda>(k, v). json_quote k @ '':'' @ json_quote v) x @ t) = Some (x, t)"
      by (auto simp: json_pair_quote)
  qed (auto simp: json_quote_def)
  then show ?thesis by (simp add: json_object_def)
qed

text \<open>
  Claim C14. The \<open>personDetails\<close> field of the POST is a faithful JSON encoding
  of the roster: decoding \<open>JSON.stringify(personDetails)\<close> gives back every
  attendee record, with its keys in order and every character of every value,
  quotes, backslashes and control characters included.
\<close>

theorem json_people_roundtrip: "json_parse_people (json_people ps) = Some ps"
proof -
  have "json_seq CHR ''['' CHR '']'' (json_seq CHR ''{'' CHR ''}'' json_pair)
          (CHR ''['' # join_with '','' (map json_object ps) @ CHR '']'' # []) = Some (ps, [])"
  proof (rule json_seq_join)
    show "\<forall>x \<in> set ps. \<forall>t. json_seq CHR ''{'' CHR ''}'' json_pair (json_object x @ t) = Some (x, t)"
      by (simp add: json_object_parse)
  qed (auto simp: json_object_def)
  then show ?thesis by (simp add: json_parse_people_def json_people_def)
qed

end
