(* ===== verification/Session.thy ===== *)
theory Session
  imports Page
begin

text \<open>
  Properties of whole sessions of the page of \<open>src/pages/buy-ticket.tsx\<close>, on
  top of the step function \<open>dispatch\<close> of the page theory:
  \<^item> a shape invariant of the roster (every attendee record is an object whose
    keys are distinct and drawn from \<open>name\<close>, \<open>email\<close>, \<open>phone\<close>), the type
    the code declares for \<open>personDetails\<close> in lines 13--15;
  \<^item> the render invariant (a reachable page has crashed exactly when its state
    cannot be rendered), used by the theorems of the root theory;
  \<^item> progress: from every live page, whatever was typed before, the user can
    reach the confirmation of a successful submission (section 7 of the
    specification: the form always remains interactive after a failure).
\<close>

definition person_wt :: "jsobj \<Rightarrow> bool" where
  "person_wt q \<longleftrightarrow> distinct (map fst q) \<and> set (map fst q) \<subseteq> set person_fields"

definition roster_wt :: "form_state \<Rightarrow> bool" where
  "roster_wt s \<longleftrightarrow> list_all person_wt (personDetails s)"

text \<open>The events of one complete purchase by a single attendee.\<close>

definition purchase :: "nat \<Rightarrow> event list" where
  "purchase j =
     [InputNumPersons ''1'', EditPerson 0 ''name'' ''Asha'', EditPerson 0 ''email'' ''asha@example.com'',
      EditPerson 0 ''phone'' ''9876543210'', ChooseFiles (Some [File ''pay.png'']), SubmitForm,
      Respond j (HttpResponse 200 ''OK'')]"

subsection \<open>What an event does to the roster\<close>

lemma dispatch_live_simps:
  "\<not> crashed p \<Longrightarrow> dispatch e p =
     (case e of
        SelectTicketType t \<Rightarrow>
          if t \<in> set [ticket_lonely, ticket_bestie]
          then Some (commit p (handleTicketTypeChange t (form p))) else None
      | InputNumPersons v \<Rightarrow> Some (commit p (outcome_state (handleNumPersonsChange v (form p))))
      | EditPerson i f v \<Rightarrow>
          if i < rows_rendered (form p) \<and> f \<in> set person_fields
          then map_option (commit p) (handlePersonDetailsChange i f v (form p)) else None
      | ChooseFiles fs \<Rightarrow> Some (commit p (handleTransactionImageChange fs (form p)))
      | ToggleQr \<Rightarrow> Some (commit p (toggleQrCode (form p)))
      | SubmitForm \<Rightarrow>
          (case handleSubmit (form p) of
             (s, None) \<Rightarrow> Some (commit p s)
           | (s, Some req) \<Rightarrow>
               Some ((commit p s)\<lparr>inflight := inflight p @ [req], posted := posted p @ [req]\<rparr>))
      | Respond j r \<Rightarrow>
          if j < length (inflight p)
          then Some ((commit p (handleSubmitResponse r (form p)))\<lparr>inflight := take j (inflight p) @ drop (Suc j) (inflight p)\<rparr>)
          else None
      | CloseModal \<Rightarrow> if formSubmitted (form p) then Some (commit p (closeModal (form p))) else None)"
  by (simp add: dispatch.simps)

lemma dispatch_personDetails:
  assumes "dispatch e p = Some p'"
  shows "personDetails (form p') = personDetails (form p) \<or>
         (\<exists>v. form p' = outcome_state (handleNumPersonsChange v (form p))) \<or>
         (\<exists>i f v. f \<in> set person_fields \<and> handlePersonDetailsChange i f v (form p) = Some (form p'))"
proof -
  have nc: "\<not> crashed p" by (rule dispatch_Some_live[OF assms])
  show ?thesis
  proof (cases e)
    case SubmitForm
    obtain s' r where h: "handleSubmit (form p) = (s', r)" by fastforce
    from handleSubmit_keeps[OF h] have "personDetails s' = personDetails (form p)"
      by (metis form_state.select_convs(8) form_state.surjective form_state.update_convs(7))
    with SubmitForm h assms show ?thesis
      by (auto simp: dispatch_live_simps[OF nc] split: option.splits)
  next
    case (Respond j r)
    with assms show ?thesis
      by (cases r) (auto simp: dispatch_live_simps[OF nc] split: if_splits)
  qed (use assms in \<open>auto simp: dispatch_live_simps[OF nc] handler_defs split: if_splits option.splits list.splits\<close>)
qed

lemma person_wt_blank [simp]: "person_wt blank_person"
  by (simp add: person_wt_def blank_person_def person_fields_def)

lemma person_wt_update:
  "person_wt q \<Longrightarrow> f \<in> set person_fields \<Longrightarrow> person_wt (AList.update f v q)"
  by (auto simp: person_wt_def distinct_update dom_update)

lemma roster_wt_handleNumPersonsChange:
  "roster_wt s \<Longrightarrow> roster_wt (outcome_state (handleNumPersonsChange v s))"
  by (simp add: roster_wt_def handleNumPersonsChange_def Let_def list_all_iff split: sum.splits)

lemma roster_wt_handlePersonDetailsChange:
  assumes "roster_wt s" and "f \<in> set person_fields" and "handlePersonDetailsChange i f v s = Some s'"
  shows "roster_wt s'"
proof -
  let ?old = "case js_array_get (personDetails s) i of None \<Rightarrow> [] | Some q \<Rightarrow> q"
  have "person_wt ?old"
    using assms(1) by (auto simp: roster_wt_def js_array_get_def list_all_length person_wt_def)
  then have "person_wt (AList.update f v ?old)" using assms(2) by (rule person_wt_update)
  with assms(1,3) show ?thesis
    by (auto simp: roster_wt_def handlePersonDetailsChange_def js_array_set_def list_all_iff Let_def
        dest!: set_update_subset_insert[THEN subsetD] split: if_splits)
qed

lemma dispatch_roster_wt:
  assumes "dispatch e p = Some p'" and "roster_wt (form p)"
  shows "roster_wt (form p')"
  using dispatch_personDetails[OF assms(1)]
proof (elim disjE exE conjE)
  assume "personDetails (form p') = personDetails (form p)"
  then show ?thesis using assms(2) by (simp add: roster_wt_def)
next
  fix v assume "form p' = outcome_state (handleNumPersonsChange v (form p))"
  then show ?thesis using assms(2) roster_wt_handleNumPersonsChange by simp
next
  fix i f v assume "f \<in> set person_fields" "handlePersonDetailsChange i f v (form p) = Some (form p')"
  then show ?thesis using assms(2) roster_wt_handlePersonDetailsChange by blast
qed

lemma dispatch_crashed_render:
  "dispatch e p = Some p' \<Longrightarrow> crashed p' \<longleftrightarrow> \<not> render_ok (form p')"
  by (cases e) (auto simp: dispatch.simps split: if_splits option.splits prod.splits)

lemma reachable_session_inv:
  "reachable p \<Longrightarrow> roster_wt (form p) \<and> (crashed p \<longleftrightarrow> \<not> render_ok (form p))"
proof (induction rule: reachable.induct)
  case (mounted k)
  then show ?case
    by (simp add: page_init_def roster_wt_def render_ok_def rows_rendered_def handler_defs)
next
  case (step p e p')
  then show ?case using dispatch_roster_wt dispatch_crashed_render by blast
qed

lemma submit_one_run:
  "map_option (\<lambda>p. (crashed p, length (inflight p), personDetails (form p), transactionImage (form p)))
     (run (fill_one @ [ChooseFiles (Some [File ''pay.png'']), SubmitForm]) (page_init 7)) =
   Some (False, 1, [[(''name'', ''Asha''), (''email'', ''asha@example.com''), (''phone'', ''9876543210'')]],
         Some (File ''pay.png''))"
  by (simp add: fill_one_def page_eval person_fields_def del: map_option_eq_Some) code_simp

lemma submit_one_reachable:
  obtains p where "run (fill_one @ [ChooseFiles (Some [File ''pay.png'']), SubmitForm]) (page_init 7) = Some p"
    "reachable p" "\<not> crashed p" "length (inflight p) = 1"
    "personDetails (form p) = [[(''name'', ''Asha''), (''email'', ''asha@example.com''), (''phone'', ''9876543210'')]]"
    "transactionImage (form p) = Some (File ''pay.png'')"
proof -
  obtain p where r: "run (fill_one @ [ChooseFiles (Some [File ''pay.png'']), SubmitForm]) (page_init 7) = Some p"
    using submit_one_run by fastforce
  with submit_one_run reachable_run_init[OF _ r] show ?thesis by (intro that[OF r]) simp_all
qed

text \<open>
  Claim C19. In every reachable page every attendee record is an object whose
  keys are distinct and among \<open>name\<close>, \<open>email\<close> and \<open>phone\<close>: the page never
  stores a property the type \<open>{ name; email; phone }\<close> of lines 13--15 does not
  have, and never duplicates one.
\<close>

theorem reachable_roster_typed:
  assumes "reachable p" and "q \<in> set (personDetails (form p))"
  shows "distinct (map fst q) \<and> set (map fst q) \<subseteq> {''name'', ''email'', ''phone''}"
  using reachable_session_inv[OF assms(1)] assms(2)
  by (auto simp: roster_wt_def list_all_iff person_wt_def person_fields_def)

theorem reachable_roster_typed_witness:
  "reachable (the (run (fill_one @ [ChooseFiles (Some [File ''pay.png'']), SubmitForm]) (page_init 7))) \<and>
   [(''name'', ''Asha''), (''email'', ''asha@example.com''), (''phone'', ''9876543210'')] \<in>
     set (personDetails (form (the (run (fill_one @ [ChooseFiles (Some [File ''pay.png'']), SubmitForm]) (page_init 7))))) \<and>
   distinct (map fst [(''name'', ''Asha''), (''email'', ''asha@example.com''), (''phone'', ''9876543210'')]) \<and>
   set (map fst [(''name'', ''Asha''), (''email'', ''asha@example.com''), (''phone'', ''9876543210'')])
     \<subseteq> {''name'', ''email'', ''phone''}"
proof -
  obtain p where r: "run (fill_one @ [ChooseFiles (Some [File ''pay.png'']), SubmitForm]) (page_init 7) = Some p"
    and h: "reachable p"
    and q: "personDetails (form p) = [[(''name'', ''Asha''), (''email'', ''asha@example.com''), (''phone'', ''9876543210'')]]"
    by (rule submit_one_reachable)
  have m: "[(''name'', ''Asha''), (''email'', ''asha@example.com''), (''phone'', ''9876543210'')] \<in> set (personDetails (form p))"
    using q by simp
  show ?thesis using r h m reachable_roster_typed[OF h m] by simp
qed

lemma purchase_person_ok:
  "person_errors 0 (AList.update ''phone'' ''9876543210''
     (AList.update ''email'' ''asha@example.com'' (AList.update ''name'' ''Asha'' blank_person))) = []"
  by (simp add: blank_person_def) code_simp

text \<open>
  A reachable page is unmounted exactly when the count it holds makes
  \<open>Array.from({length: numPersons})\<close> of line 206 throw, that is when the
  count converted by \<open>ToLength\<close> is at least \<open>2^32\<close>; no other input crashes
  the page.
\<close>

lemma reachable_crash_iff:
  assumes "reachable p"
  shows "crashed p \<longleftrightarrow> 2 ^ 32 \<le> to_length (numPersons (form p))"
  using reachable_session_inv[OF assms] by (auto simp: render_ok_def rows_rendered_def)

text \<open>
  Claim C20. From every live page, whatever state the form is in (a count of
  \<open>NaN\<close>, stale messages, requests still in flight), the user can always
  complete a purchase: entering one attendee with valid data, choosing a
  screenshot, submitting and receiving a 2xx answer issues exactly one more POST
  and shows the confirmation.
\<close>

theorem purchase_completes:
  assumes "\<not> crashed p"
  shows "\<exists>p'. run (purchase (length (inflight p))) p = Some p' \<and> formSubmitted (form p') \<and>
             length (posted p') = Suc (length (posted p))"
  using assms
  by (simp add: purchase_def page_eval person_fields_def purchase_person_ok fetch_ok_def
      del: map_option_eq_Some)

theorem purchase_completes_witness:
  "\<not> crashed (page_init 7) \<and>
   (\<exists>p'. run (purchase (length (inflight (page_init 7)))) (page_init 7) = Some p' \<and>
      formSubmitted (form p') \<and> length (posted p') = Suc (length (posted (page_init 7))))"
proof -
  have h: "\<not> crashed (page_init 7)" by (simp add: page_init_def)
  show ?thesis using h purchase_completes[OF h] by blast
qed


end
