(* ===== verification/View.thy ===== *)
theory View
  imports Page
begin

text \<open>
  The render of \<open>FormPage\<close> (lines 124--311 of \<open>src/pages/buy-ticket.tsx\<close>) as
  a React element tree, one definition per block of the JSX, in source order:
  the confirmation modal (126--141), the two ticket cards (142--157), the fixed
  inputs (159--205), one row of three inputs per element of
  \<open>Array.from({length: numPersons})\<close> (206--248), the total (249--259), the QR
  block (260--283), the upload input (284--294), the messages (295--301) and the
  submit button (302--307). Props are kept except \<open>className\<close>; event props
  carry the handler they call, with the arguments the arrow function binds
  (\<open>OnPerson index field\<close>). \<open>{cond && (...)}\<close> renders nothing when the
  condition is false. \<open>Array.from\<close> throws \<open>RangeError\<close> when the length,
  after \<open>ToLength\<close>, is \<open>2^32\<close> or more, so \<open>view\<close> is partial. The rupee
  sign is its UTF-8 encoding.

  The last lemma checks the page theory against the render: a
  reachable live page accepts a user event in \<open>dispatch\<close> exactly when the
  rendered tree has an element with the handler of that event (and, for the
  select, the chosen option).
\<close>

datatype form_handler = OnTicketType | OnNumPersons | OnPerson nat string | OnFile | OnToggleQr
  | OnSubmit | OnClose

type_synonym view_node = "form_handler vnode"

definition rupee :: string where
  "rupee = [CHR 0xE2, CHR 0x82, CHR 0xB9]"

definition view_modal :: "form_state \<Rightarrow> view_node list" where
  "view_modal s =
     (if formSubmitted s then
        [Elem ''div'' [] []
          [Elem ''div'' [] []
            [Elem ''h2'' [] [] [Txt ''You just joined the Dinner List''],
             Elem ''p'' [] [] [Txt ''Congratulations. See you there!''],
             Elem ''button'' [] [(''onClick'', OnClose)] [Txt ''Close'']]]]
      else [])"

definition view_cards :: view_node where
  "view_cards =
     Elem ''div'' [] []
      [Elem ''div'' [] [] [Elem ''h2'' [] [] [Txt ''Lonely at the top''], Elem ''p'' [] [] [Txt (rupee @ ''50'')]],
       Elem ''div'' [] [] [Elem ''h2'' [] [] [Txt ''Bestie and I''], Elem ''p'' [] [] [Txt (rupee @ ''80'')]]]"

definition view_fixed_fields :: "form_state \<Rightarrow> view_node list" where
  "view_fixed_fields s =
     [Elem ''div'' [] []
       [Elem ''label'' [] [] [Txt ''Ticket Number''],
        Elem ''input'' [(''type'', ''text''), (''value'', ticketNumber s), (''readOnly'', ''true'')] [] []],
      Elem ''div'' [] []
       [Elem ''label'' [] [] [Txt ''Ticket Type''],
        Elem ''select'' [(''value'', ticketType s)] [(''onChange'', OnTicketType)]
          [Elem ''option'' [] [] [Txt ''Lonely at the top''], Elem ''option'' [] [] [Txt ''Bestie and I'']]],
      Elem ''div'' [] []
       [Elem ''label'' [] [] [Txt ''Amount''],
        Elem ''input'' [(''type'', ''text''), (''value'', rupee @ dec_int (amount s)), (''readOnly'', ''true'')] [] []],
      Elem ''div'' [] []
       [Elem ''label'' [] [] [Txt ''Number of Persons''],
        Elem ''input'' [(''type'', ''number''), (''min'', ''1''), (''value'', js_num_to_string (numPersons s))]
          [(''onChange'', OnNumPersons)] []]]"

definition person_input :: "form_state \<Rightarrow> nat \<Rightarrow> string \<Rightarrow> string \<Rightarrow> string \<Rightarrow> view_node" where
  "person_input s index what typ field =
     Elem ''div'' [] []
      [Elem ''label'' [] [] [Txt (what @ '' of Person ''), Txt (dec_nat (index + 1))],
       Elem ''input'' [(''type'', typ), (''value'', field_view s index field)] [(''onChange'', OnPerson index field)] []]"

definition person_row :: "form_state \<Rightarrow> nat \<Rightarrow> view_node" where
  "person_row s index =
     Elem ''div'' [(''key'', dec_nat index)] []
      [person_input s index ''Name'' ''text'' ''name'',
       person_input s index ''Email Address'' ''email'' ''email'',
       person_input s index ''Phone Number'' ''tel'' ''phone'']"

definition view_total :: "form_state \<Rightarrow> view_node" where
  "view_total s =
     Elem ''div'' [] []
      [Elem ''label'' [] [] [Txt ''Total Amount''],
       Elem ''input'' [(''type'', ''text''), (''value'', rupee @ js_num_to_string (totalAmount s)), (''readOnly'', ''true'')] [] []]"

definition view_qr :: "form_state \<Rightarrow> view_node" where
  "view_qr s =
     Elem ''div'' [] []
      ([Elem ''button'' [(''type'', ''button'')] [(''onClick'', OnToggleQr)] [Txt ''View QR Code'']] @
       (if showQrCode s then
          [Elem ''div'' [] []
            [Elem ''p'' [] [] [Txt ''Scan To make Payment''],
             Elem ''p'' [] [] [Txt ''Account Name: Mr. Dominic Asamoah Ampofo''],
             Elem ''Image'' [(''src'', ''/qr.png''), (''alt'', ''QR Code''), (''width'', ''250''), (''height'', ''250'')] [] []]]
        else []))"

definition view_upload :: view_node where
  "view_upload =
     Elem ''div'' [] []
      [Elem ''label'' [] [] [Txt ''Upload Transaction Screenshot''],
       Elem ''input'' [(''type'', ''file''), (''accept'', ''image/png, image/jpeg, image/jpg'')] [(''onChange'', OnFile)] []]"

definition view_errors :: "form_state \<Rightarrow> view_node list" where
  "view_errors s =
     (if 0 < length (errors s) then
        [Elem ''div'' [] [] (map (\<lambda>(index, error). Elem ''p'' [(''key'', dec_nat index)] [] [Txt error])
                                 (zip [0..<length (errors s)] (errors s)))]
      else [])"

definition view :: "form_state \<Rightarrow> view_node option" where
  "view s =
     (let n = to_length (numPersons s) in
      if n < 2 ^ 32 then
        Some (Elem ''div'' [] []
          (view_modal s @
           [Elem ''h1'' [] [] [Txt ''Buy Ticket''],
            Elem ''div'' [] []
             [view_cards,
              Elem ''form'' [] [(''onSubmit'', OnSubmit)]
               (view_fixed_fields s @ map (person_row s) [0..<n] @ [view_total s, view_qr s, view_upload] @
                view_errors s @ [Elem ''button'' [(''type'', ''submit'')] [] [Txt ''Submit'']])]]))
      else None)"

subsection \<open>Reading a tree\<close>

fun handlers :: "'h vnode \<Rightarrow> 'h list" where
  "handlers (Txt t) = []"
| "handlers (Elem tag props hs kids) = map snd hs @ concat (map handlers kids)"

fun texts :: "'h vnode \<Rightarrow> string" where
  "texts (Txt t) = t"
| "texts (Elem tag props hs kids) = concat (map texts kids)"

fun option_texts :: "'h vnode \<Rightarrow> string list" where
  "option_texts (Txt t) = []"
| "option_texts (Elem tag props hs kids) =
     (if tag = ''option'' then [concat (map texts kids)] else []) @ concat (map option_texts kids)"

primrec ui_offers :: "view_node \<Rightarrow> event \<Rightarrow> bool" where
  "ui_offers v (SelectTicketType t) \<longleftrightarrow> OnTicketType \<in> set (handlers v) \<and> t \<in> set (option_texts v)"
| "ui_offers v (InputNumPersons x) \<longleftrightarrow> OnNumPersons \<in> set (handlers v)"
| "ui_offers v (EditPerson i f x) \<longleftrightarrow> OnPerson i f \<in> set (handlers v)"
| "ui_offers v (ChooseFiles fs) \<longleftrightarrow> OnFile \<in> set (handlers v)"
| "ui_offers v ToggleQr \<longleftrightarrow> OnToggleQr \<in> set (handlers v)"
| "ui_offers v SubmitForm \<longleftrightarrow> OnSubmit \<in> set (handlers v)"
| "ui_offers v (Respond j r) \<longleftrightarrow> False"
| "ui_offers v CloseModal \<longleftrightarrow> OnClose \<in> set (handlers v)"

primrec ui_event :: "event \<Rightarrow> bool" where
  "ui_event (SelectTicketType t) = True"
| "ui_event (InputNumPersons x) = True"
| "ui_event (EditPerson i f x) = True"
| "ui_event (ChooseFiles fs) = True"
| "ui_event ToggleQr = True"
| "ui_event SubmitForm = True"
| "ui_event (Respond j r) = False"
| "ui_event CloseModal = True"

subsection \<open>What the render offers\<close>

lemma view_Some_iff: "view s \<noteq> None \<longleftrightarrow> render_ok s"
  by (simp add: view_def render_ok_def rows_rendered_def Let_def)

lemma handlers_person_row:
  "handlers (person_row s i) = [OnPerson i ''name'', OnPerson i ''email'', OnPerson i ''phone'']"
  by (simp add: person_row_def person_input_def)

lemma handlers_view_errors: "concat (map handlers (view_errors s)) = []"
  by (auto simp: view_errors_def)

lemma option_texts_view_errors: "concat (map option_texts (view_errors s)) = []"
  by (auto simp: view_errors_def)

lemma option_texts_person_row: "option_texts (person_row s i) = []"
  by (simp add: person_row_def person_input_def)

lemma handlers_view:
  assumes "view s = Some v"
  shows "set (handlers v) =
           {OnTicketType, OnNumPersons, OnToggleQr, OnFile, OnSubmit} \<union>
           {OnPerson i f | i f. i < rows_rendered s \<and> f \<in> set person_fields} \<union>
           (if formSubmitted s then {OnClose} else {})"
  using assms
  by (auto simp: view_def Let_def view_modal_def view_cards_def view_fixed_fields_def view_total_def
      view_qr_def view_upload_def handlers_person_row handlers_view_errors rows_rendered_def
      person_fields_def split: if_splits)

lemma option_texts_view:
  assumes "view s = Some v"
  shows "option_texts v = [ticket_lonely, ticket_bestie]"
  using assms
  by (auto simp: view_def Let_def view_modal_def view_cards_def view_fixed_fields_def view_total_def
      view_qr_def view_upload_def option_texts_person_row option_texts_view_errors
      ticket_lonely_def ticket_bestie_def split: if_splits)

lemma edit_accepted_iff:
  assumes "page_inv p" and "\<not> crashed p"
  shows "dispatch (EditPerson i f x) p \<noteq> None \<longleftrightarrow> i < rows_rendered (form p) \<and> f \<in> set person_fields"
proof -
  have "i < rows_rendered (form p) \<Longrightarrow> i \<le> length (personDetails (form p))"
    using assms by (auto simp: page_inv_def)
  then show ?thesis using assms(2)
    by (auto simp: dispatch.simps handlePersonDetailsChange_def Let_def js_array_set_def)
qed

text \<open>
  The event model agrees with the render: on every reachable live
  page, \<open>dispatch\<close> accepts a user event exactly when the rendered element
  tree offers it, that is, has an element whose event prop calls the event's
  handler (for a person input, the one bound to that index and field; for the
  select, with the chosen option among its options). In particular the person
  inputs are those of the rendered rows and \<open>Close\<close> exists only with the modal.
\<close>

lemma dispatch_matches_view:
  assumes "reachable p" and "\<not> crashed p" and "view (form p) = Some v" and "ui_event e"
  shows "dispatch e p \<noteq> None \<longleftrightarrow> ui_offers v e"
proof -
  have inv: "page_inv p" by (rule reachable_page_inv[OF assms(1)])
  note h = handlers_view[OF assms(3)] and o = option_texts_view[OF assms(3)]
  show ?thesis
  proof (cases e)
    case (EditPerson i f x)
    then show ?thesis using edit_accepted_iff[OF inv assms(2)] h by auto
  next
    case (Respond j r)
    then show ?thesis using assms(4) by simp
  qed (use assms(2) h o in \<open>auto simp: dispatch.simps split: prod.splits option.splits\<close>)
qed


end
