(* ===== verification/Email.thy ===== *)
theory Email
  imports Patterns
begin

text \<open>
  An exact description of the e-mail addresses the pattern of line 103 of
  \<open>src/pages/buy-ticket.tsx\<close> accepts, \<open>/^[\w-]+(\.[\w-]+)*@([\w-]+\.)+[a-zA-Z]{2,7}$/\<close>
  (\<open>email_re\<close>): split at \<open>@\<close> into exactly two parts; the local part split
  at the dots gives non-empty words of \<open>[\w-]\<close>; the domain split at the dots
  gives at least one non-empty word of \<open>[\w-]\<close> followed by a last label of two
  to seven ASCII letters. \<open>split_on\<close> is \<open>String.prototype.split\<close> with a
  one-character separator.
\<close>

fun split_on :: "char \<Rightarrow> string \<Rightarrow> string list" where
  "split_on c [] = [[]]"
| "split_on c (x # xs) = (let r = split_on c xs in if x = c then [] # r else (x # hd r) # tl r)"

definition word_ok :: "(char \<times> char) list \<Rightarrow> string \<Rightarrow> bool" where
  "word_ok rs w \<longleftrightarrow> w \<noteq> [] \<and> list_all (in_ranges rs) w"

definition email_local_ok :: "string \<Rightarrow> bool" where
  "email_local_ok l \<longleftrightarrow> list_all (word_ok cls_word_dash) (split_on CHR ''.'' l)"

definition email_domain_ok :: "string \<Rightarrow> bool" where
  "email_domain_ok r \<longleftrightarrow>
     (let ps = split_on CHR ''.'' r in
      2 \<le> length ps \<and> list_all (word_ok cls_word_dash) (butlast ps) \<and>
      2 \<le> length (last ps) \<and> length (last ps) \<le> 7 \<and> list_all (in_ranges cls_alpha) (last ps))"

definition email_shape :: "string \<Rightarrow> bool" where
  "email_shape s \<longleftrightarrow>
     (case split_on CHR ''@'' s of [l, r] \<Rightarrow> email_local_ok l \<and> email_domain_ok r | _ \<Rightarrow> False)"

subsection \<open>Splitting and joining\<close>

lemma split_on_not_Nil [simp]: "split_on c x \<noteq> []"
  by (induction x) (simp_all add: Let_def)

lemma split_on_no_sep: "c \<notin> set w \<Longrightarrow> split_on c w = [w]"
  by (induction w) (auto simp: Let_def)

lemma split_on_append_sep:
  "c \<notin> set w \<Longrightarrow> split_on c (w @ c # rest) = w # split_on c rest"
  by (induction w) (auto simp: Let_def)

lemma join_split_on: "join_with [c] (split_on c x) = x"
proof (induction x)
  case (Cons y ys)
  then show ?case
    by (cases "split_on c ys" rule: list.exhaust, simp)
       (cases "tl (split_on c ys)", auto simp: Let_def)
qed simp

lemma split_on_join:
  "ws \<noteq> [] \<Longrightarrow> \<forall>w \<in> set ws. c \<notin> set w \<Longrightarrow> split_on c (join_with [c] ws) = ws"
proof (induction ws)
  case (Cons w ws)
  then show ?case by (cases ws) (simp_all add: split_on_no_sep split_on_append_sep)
qed simp

lemma set_butlast_last: "xs \<noteq> [] \<Longrightarrow> set xs = insert (last xs) (set (butlast xs))"
  by (induction xs) auto

lemma join_with_Cons_sep: "join_with [c] (w # ws) = w @ concat (map ((#) c) ws)"
  by (induction ws arbitrary: w) (simp_all add: join_with.simps(3)[of _ _ "_ # _"])

lemma join_with_snoc_sep: "join_with [c] (ws @ [t]) = concat (map (\<lambda>w. w @ [c]) ws) @ t"
proof (induction ws)
  case (Cons w ws)
  then show ?case by (cases ws) simp_all
qed simp

lemma set_join_with: "set (join_with [c] ws) \<subseteq> insert c (\<Union>w \<in> set ws. set w)"
proof (induction ws)
  case (Cons w ws)
  then show ?case by (cases ws) auto
qed simp

subsection \<open>Star of separated words\<close>

lemma kstar_concat: "v \<in> kstar A \<longleftrightarrow> (\<exists>xs. v = concat xs \<and> set xs \<subseteq> A)"
proof
  assume "v \<in> kstar A"
  then show "\<exists>xs. v = concat xs \<and> set xs \<subseteq> A"
  proof (induction rule: kstar.induct)
    case kstar_nil
    show ?case by (rule exI[of _ "[]"]) simp
  next
    case (kstar_app u v)
    then obtain xs where "v = concat xs" "set xs \<subseteq> A" by blast
    with kstar_app.hyps(1) show ?case by (intro exI[of _ "u # xs"]) simp
  qed
next
  assume "\<exists>xs. v = concat xs \<and> set xs \<subseteq> A"
  then obtain xs where v: "v = concat xs" and xs: "set xs \<subseteq> A" by blast
  from xs have "concat xs \<in> kstar A"
    by (induction xs) (auto intro: kstar.intros)
  with v show "v \<in> kstar A" by simp
qed

lemma kstar_sep_words:
  "v \<in> kstar (lconc {[c]} B) \<longleftrightarrow> (\<exists>ws. v = concat (map ((#) c) ws) \<and> set ws \<subseteq> B)"
proof -
  have "(\<exists>xs. v = concat xs \<and> set xs \<subseteq> lconc {[c]} B) \<longleftrightarrow>
        (\<exists>ws. v = concat (map ((#) c) ws) \<and> set ws \<subseteq> B)"
  proof
    assume "\<exists>xs. v = concat xs \<and> set xs \<subseteq> lconc {[c]} B"
    then obtain xs where v: "v = concat xs" and xs: "\<forall>x \<in> set xs. \<exists>w. x = c # w \<and> w \<in> B"
      by (auto simp: in_lconc_iff subset_iff)
    then have "xs = map ((#) c) (map tl xs)" "set (map tl xs) \<subseteq> B"
      by (auto intro!: map_idI[symmetric])
    with v show "\<exists>ws. v = concat (map ((#) c) ws) \<and> set ws \<subseteq> B" by metis
  next
    assume "\<exists>ws. v = concat (map ((#) c) ws) \<and> set ws \<subseteq> B"
    then obtain ws where "v = concat (map ((#) c) ws)" "set ws \<subseteq> B" by blast
    then show "\<exists>xs. v = concat xs \<and> set xs \<subseteq> lconc {[c]} B"
      by (intro exI[of _ "map ((#) c) ws"]) (auto simp: in_lconc_iff)
  qed
  then show ?thesis by (simp add: kstar_concat)
qed

lemma kstar_words_sep:
  "v \<in> kstar (lconc B {[c]}) \<longleftrightarrow> (\<exists>ws. v = concat (map (\<lambda>w. w @ [c]) ws) \<and> set ws \<subseteq> B)"
proof -
  have "(\<exists>xs. v = concat xs \<and> set xs \<subseteq> lconc B {[c]}) \<longleftrightarrow>
        (\<exists>ws. v = concat (map (\<lambda>w. w @ [c]) ws) \<and> set ws \<subseteq> B)"
  proof
    assume "\<exists>xs. v = concat xs \<and> set xs \<subseteq> lconc B {[c]}"
    then obtain xs where v: "v = concat xs" and xs: "\<forall>x \<in> set xs. \<exists>w. x = w @ [c] \<and> w \<in> B"
      by (auto simp: in_lconc_iff subset_iff)
    then have "xs = map (\<lambda>w. w @ [c]) (map butlast xs)" "set (map butlast xs) \<subseteq> B"
      by (auto intro!: map_idI[symmetric])
    with v show "\<exists>ws. v = concat (map (\<lambda>w. w @ [c]) ws) \<and> set ws \<subseteq> B" by metis
  next
    assume "\<exists>ws. v = concat (map (\<lambda>w. w @ [c]) ws) \<and> set ws \<subseteq> B"
    then obtain ws where "v = concat (map (\<lambda>w. w @ [c]) ws)" "set ws \<subseteq> B" by blast
    then show "\<exists>xs. v = concat xs \<and> set xs \<subseteq> lconc B {[c]}"
      by (intro exI[of _ "map (\<lambda>w. w @ [c]) ws"]) (auto simp: in_lconc_iff)
  qed
  then show ?thesis by (simp add: kstar_concat)
qed

subsection \<open>The three parts of an address\<close>

lemma sep_list_lang:
  assumes "\<forall>w \<in> B. c \<notin> set w"
  shows "x \<in> lconc B (kstar (lconc {[c]} B)) \<longleftrightarrow> list_all (\<lambda>w. w \<in> B) (split_on c x)"
proof
  assume "x \<in> lconc B (kstar (lconc {[c]} B))"
  then obtain w ws where x: "x = join_with [c] (w # ws)" and b: "w \<in> B" "set ws \<subseteq> B"
    by (auto simp: in_lconc_iff kstar_sep_words join_with_Cons_sep)
  have "split_on c x = w # ws"
    using x b assms by (simp add: split_on_join subset_iff)
  with b show "list_all (\<lambda>w. w \<in> B) (split_on c x)" by (auto simp: list_all_iff)
next
  assume a: "list_all (\<lambda>w. w \<in> B) (split_on c x)"
  obtain w ws where ps: "split_on c x = w # ws" by (cases "split_on c x") auto
  have "x = w @ concat (map ((#) c) ws)"
    using join_split_on[of c x] by (simp add: ps join_with_Cons_sep)
  moreover have "w \<in> B" "set ws \<subseteq> B" using a ps by (auto simp: list_all_iff)
  ultimately show "x \<in> lconc B (kstar (lconc {[c]} B))"
    by (auto simp: in_lconc_iff kstar_sep_words)
qed

lemma domain_lang:
  assumes "\<forall>w \<in> B. c \<notin> set w" and "\<forall>t \<in> T. c \<notin> set t"
  shows "x \<in> lconc (lconc (lconc B {[c]}) (kstar (lconc B {[c]}))) T \<longleftrightarrow>
         (let ps = split_on c x in 2 \<le> length ps \<and> set (butlast ps) \<subseteq> B \<and> last ps \<in> T)"
proof
  assume "x \<in> lconc (lconc (lconc B {[c]}) (kstar (lconc B {[c]}))) T"
  then obtain w vs t where x0: "x = (w @ [c]) @ concat (map (\<lambda>w. w @ [c]) vs) @ t"
    and b0: "w \<in> B" "set vs \<subseteq> B" "t \<in> T"
    by (auto simp: in_lconc_iff kstar_words_sep)
  let ?ws = "w # vs"
  have x: "x = join_with [c] (?ws @ [t])" using x0 join_with_snoc_sep[of c ?ws t] by simp
  have b: "?ws \<noteq> []" "set ?ws \<subseteq> B" "t \<in> T" using b0 by simp_all
  have "split_on c x = ?ws @ [t]"
    using x b assms by (simp add: split_on_join subset_iff)
  with b show "let ps = split_on c x in 2 \<le> length ps \<and> set (butlast ps) \<subseteq> B \<and> last ps \<in> T"
    by simp
next
  assume a: "let ps = split_on c x in 2 \<le> length ps \<and> set (butlast ps) \<subseteq> B \<and> last ps \<in> T"
  let ?ps = "split_on c x"
  have "1 \<le> length (butlast ?ps)" using a by (simp add: Let_def) linarith
  then obtain w ws where bl: "butlast ?ps = w # ws" by (cases "butlast ?ps") auto
  have ps: "?ps = (w # ws) @ [last ?ps]"
    using append_butlast_last_id[OF split_on_not_Nil, of c x] bl by simp
  have "x = concat (map (\<lambda>w. w @ [c]) (w # ws)) @ last ?ps"
    using join_split_on[of c x] ps join_with_snoc_sep[of c "w # ws" "last ?ps"] by simp
  moreover have "set (butlast ?ps) \<subseteq> B" "last ?ps \<in> T" using a by (simp_all add: Let_def)
  then have m: "w @ [c] \<in> lconc B {[c]}" "concat (map (\<lambda>w. w @ [c]) ws) \<in> kstar (lconc B {[c]})"
    "last ?ps \<in> T"
    using bl by (auto simp: kstar_words_sep intro: lconcI)
  have "((w @ [c]) @ concat (map (\<lambda>w. w @ [c]) ws)) @ last ?ps
               \<in> lconc (lconc (lconc B {[c]}) (kstar (lconc B {[c]}))) T"
    by (rule lconcI[OF lconcI[OF m(1,2)] m(3)])
  ultimately show "x \<in> lconc (lconc (lconc B {[c]}) (kstar (lconc B {[c]}))) T"
    by simp
qed

lemma at_split:
  assumes "\<forall>l \<in> A. c \<notin> set l" and "\<forall>r \<in> B. c \<notin> set r"
  shows "s \<in> lconc A (lconc {[c]} B) \<longleftrightarrow> (case split_on c s of [l, r] \<Rightarrow> l \<in> A \<and> r \<in> B | _ \<Rightarrow> False)"
proof
  assume "s \<in> lconc A (lconc {[c]} B)"
  then obtain l r where "s = l @ c # r" "l \<in> A" "r \<in> B" by (auto simp: in_lconc_iff)
  with assms show "case split_on c s of [l, r] \<Rightarrow> l \<in> A \<and> r \<in> B | _ \<Rightarrow> False"
    by (simp add: split_on_append_sep split_on_no_sep)
next
  assume a: "case split_on c s of [l, r] \<Rightarrow> l \<in> A \<and> r \<in> B | _ \<Rightarrow> False"
  then obtain l r where ps: "split_on c s = [l, r]" "l \<in> A" "r \<in> B"
    by (auto split: list.splits)
  have "s = l @ c # r" using join_split_on[of c s] ps(1) by simp
  moreover have "c # r \<in> lconc {[c]} B" using lconcI[of "[c]" "{[c]}" r B] ps(3) by simp
  ultimately show "s \<in> lconc A (lconc {[c]} B)" using lconcI[OF ps(2)] by simp
qed

subsection \<open>The pattern of line 103\<close>

lemma separators_not_in_classes:
  "\<not> in_ranges cls_word_dash CHR ''.''" "\<not> in_ranges cls_word_dash CHR ''@''"
  "\<not> in_ranges cls_alpha CHR ''.''" "\<not> in_ranges cls_alpha CHR ''@''"
  by (simp_all add: in_ranges_def cls_word_dash_def cls_alpha_def)

lemma plus_cls_word_ok: "w \<in> lang (rx_plus (RCls rs)) \<longleftrightarrow> word_ok rs w"
  by (simp add: plus_cls word_ok_def)

lemma word_ok_no_char: "word_ok rs w \<Longrightarrow> \<not> in_ranges rs c \<Longrightarrow> c \<notin> set w"
  by (auto simp: word_ok_def list_all_iff)

lemma tld_lang:
  "t \<in> lang (rx_rep 2 7 (RCls cls_alpha)) \<longleftrightarrow>
     2 \<le> length t \<and> length t \<le> 7 \<and> list_all (in_ranges cls_alpha) t"
  by (rule rep_cls) simp

lemma tld_no_char: "t \<in> lang (rx_rep 2 7 (RCls cls_alpha)) \<Longrightarrow> \<not> in_ranges cls_alpha c \<Longrightarrow> c \<notin> set t"
  by (auto simp: tld_lang list_all_iff)

abbreviation email_local_lang :: "string set" where
  "email_local_lang \<equiv>
     lconc (lang (rx_plus (RCls cls_word_dash)))
       (kstar (lconc {[CHR ''.'']} (lang (rx_plus (RCls cls_word_dash)))))"

abbreviation email_domain_lang :: "string set" where
  "email_domain_lang \<equiv>
     lconc (lconc (lconc (lang (rx_plus (RCls cls_word_dash))) {[CHR ''.'']})
                  (kstar (lconc (lang (rx_plus (RCls cls_word_dash))) {[CHR ''.'']})))
           (lang (rx_rep 2 7 (RCls cls_alpha)))"

lemma lang_email_re: "lang email_re = lconc email_local_lang (lconc {[CHR ''@'']} email_domain_lang)"
  by (simp add: email_re_def rx_plus_def lconc_assoc)

lemma email_local_lang_iff: "l \<in> email_local_lang \<longleftrightarrow> email_local_ok l"
proof -
  have "\<forall>w \<in> lang (rx_plus (RCls cls_word_dash)). CHR ''.'' \<notin> set w"
    using word_ok_no_char separators_not_in_classes(1) by (simp add: plus_cls_word_ok)
  from sep_list_lang[OF this] show ?thesis
    by (simp add: email_local_ok_def plus_cls_word_ok list_all_iff)
qed

lemma email_domain_lang_iff: "r \<in> email_domain_lang \<longleftrightarrow> email_domain_ok r"
proof -
  have "\<forall>w \<in> lang (rx_plus (RCls cls_word_dash)). CHR ''.'' \<notin> set w"
    using word_ok_no_char separators_not_in_classes(1) by (simp add: plus_cls_word_ok)
  moreover have "\<forall>t \<in> lang (rx_rep 2 7 (RCls cls_alpha)). CHR ''.'' \<notin> set t"
    using tld_no_char separators_not_in_classes(3) by blast
  ultimately show ?thesis
    by (simp add: domain_lang email_domain_ok_def plus_cls_word_ok tld_lang list_all_iff subset_iff Let_def Ball_def)
qed

lemma email_local_no_at: "l \<in> email_local_lang \<Longrightarrow> CHR ''@'' \<notin> set l"
proof -
  assume "l \<in> email_local_lang"
  then have ok: "list_all (word_ok cls_word_dash) (split_on CHR ''.'' l)"
    by (simp add: email_local_lang_iff email_local_ok_def)
  have "CHR ''@'' \<notin> set (join_with [CHR ''.''] (split_on CHR ''.'' l))"
    using set_join_with[of "CHR ''.''" "split_on CHR ''.'' l"] ok
      word_ok_no_char[OF _ separators_not_in_classes(2)]
    by (auto simp: list_all_iff)
  then show ?thesis by (simp add: join_split_on)
qed

lemma email_domain_no_at: "r \<in> email_domain_lang \<Longrightarrow> CHR ''@'' \<notin> set r"
proof -
  assume "r \<in> email_domain_lang"
  then have ok: "list_all (word_ok cls_word_dash) (butlast (split_on CHR ''.'' r))"
    "list_all (in_ranges cls_alpha) (last (split_on CHR ''.'' r))"
    by (simp_all add: email_domain_lang_iff email_domain_ok_def Let_def)
  have "\<forall>w \<in> set (split_on CHR ''.'' r). CHR ''@'' \<notin> set w"
  proof
    fix w assume w: "w \<in> set (split_on CHR ''.'' r)"
    have "w \<in> set (butlast (split_on CHR ''.'' r)) \<or> w = last (split_on CHR ''.'' r)"
      using w set_butlast_last[OF split_on_not_Nil, of "CHR ''.''" r] by blast
    then show "CHR ''@'' \<notin> set w"
      using ok word_ok_no_char[OF _ separators_not_in_classes(2)] separators_not_in_classes(4)
      by (auto simp: list_all_iff)
  qed
  then have "CHR ''@'' \<notin> set (join_with [CHR ''.''] (split_on CHR ''.'' r))"
    using set_join_with[of "CHR ''.''" "split_on CHR ''.'' r"] by auto
  then show ?thesis by (simp add: join_split_on)
qed

text \<open>
  Claim C21. The e-mail pattern of line 103 accepts a string exactly when it
  splits at \<open>@\<close> into two parts, the local part is one or more non-empty
  words of \<open>[A-Za-z0-9_-]\<close> separated by single dots, and the domain is one or
  more such words each followed by a dot, then a top-level label of two to
  seven ASCII letters.
\<close>

theorem email_valid_iff: "email_valid s \<longleftrightarrow> email_shape s"
proof -
  have "email_valid s \<longleftrightarrow> s \<in> lconc email_local_lang (lconc {[CHR ''@'']} email_domain_lang)"
    by (simp add: email_valid_def rx_match_lang lang_email_re)
  also have "\<dots> \<longleftrightarrow> (case split_on CHR ''@'' s of [l, r] \<Rightarrow> l \<in> email_local_lang \<and> r \<in> email_domain_lang
                        | _ \<Rightarrow> False)"
    by (rule at_split) (auto dest: email_local_no_at email_domain_no_at)
  also have "\<dots> \<longleftrightarrow> email_shape s"
    by (simp add: email_shape_def email_local_lang_iff email_domain_lang_iff split: list.splits)
  finally show ?thesis .
qed

lemma email_examples:
  "email_valid ''asha.k-r@mail.example.com''" "email_valid ''a@-_.com''"
  "\<not> email_valid ''.asha@example.com''" "\<not> email_valid ''asha+tag@example.com''"
  "\<not> email_valid ''asha@example.photography''"
  by code_simp+

end
