(* ===== verification/Spec2Isabelle.thy ===== *)
theory Spec2Isabelle
  imports Order Json Session Landing View Email
begin

text \<open>
  \<^bold>\<open>A verification development of the ticket-booking front end.\<close>

  The program has two units. \<open>src/pages/buy-ticket.tsx\<close> is the React page
  \<open>FormPage\<close>: nine \<open>useState\<close> hooks (lines 6--16), a mount effect that
  draws the ticket number (18--27), event handlers (29--59, 135, 264), the
  validation \<open>validateForm\<close> (95--120), the asynchronous \<open>handleSubmit\<close> that
  posts a \<open>FormData\<close> to a fixed endpoint (61--93) and the JSX that renders it
  all (124--311). \<open>src/components/Landing.tsx\<close> is the stateless banner
  \<open>EventBanner\<close>, whose only link leads to \<open>/buy-ticket\<close>.

  \<^bold>\<open>Theories, bottom up.\<close>
  \<^item> \<open>Prelude\<close>: the JavaScript built-ins the page relies on, with their edge
    cases: \<open>parseInt(v, 10)\<close> (\<open>parse_int\<close>, giving \<open>NaN\<close>), \<open>Number.toString\<close>
    (\<open>dec_nat\<close>, \<open>dec_int\<close>, \<open>js_num_to_string\<close>), \<open>padStart\<close>, \<open>Array(n)\<close>
    (\<open>array_ctor\<close>, which throws \<open>RangeError\<close>), \<open>ToLength\<close>, the array write
    \<open>a[i] = v\<close> (\<open>js_array_set\<close>) and read, truthiness; the outcome type
    \<open>'s outcome\<close> of a handler that may throw after queueing state updates.
  \<^item> \<open>Regex\<close>: \<open>RegExp.prototype.test\<close> for anchored patterns, as regular
    expressions over character ranges with a language semantics \<open>lang\<close> and a
    Brzozowski-derivative matcher \<open>rx_match\<close>.
  \<^item> \<open>Patterns\<close>: the two pattern literals of lines 103 and 111
    (\<open>email_re\<close>, \<open>phone_re\<close>) and a reference description of the phone
    numbers the second accepts.
  \<^item> \<open>Email\<close>: an exact description of the addresses the e-mail pattern
    accepts, by splitting at \<open>@\<close> and at the dots.
  \<^item> \<open>Validation\<close>: \<open>validateForm\<close> and its \<open>forEach\<close> body.
  \<^item> \<open>Form\<close>: the record \<open>form_state\<close> of the hooks and one definition per
    handler, each returning the state after all of its \<open>set...\<close> calls.
  \<^item> \<open>Submit\<close>: \<open>handleSubmit\<close> split at its \<open>await\<close> into the synchronous
    half (validation, payload, request) and the continuation
    \<open>handleSubmitResponse\<close>; the payload \<open>build_form_data\<close> with
    \<open>JSON.stringify\<close> (\<open>json_people\<close>).
  \<^item> \<open>Json\<close>: a reference decoder of the \<open>personDetails\<close> field as the
    receiving service reads it.
  \<^item> \<open>Page\<close>: the running page (form state, requests in flight, log of
    posts, crash flag), the events the rendered page offers, \<open>dispatch\<close> (one
    event handled, then the re-render, which throws for \<open>2^32\<close> rows or more)
    and the inductive set \<open>reachable\<close> of pages reachable from the mount.
  \<^item> \<open>Order\<close>: the specification's abstract order (sections 3 and 4 of
    \<open>spec.md\<close>) and the abstraction \<open>abs_form\<close> of a form state into it.
  \<^item> \<open>Session\<close>: invariants and progress of whole sessions.
  \<^item> \<open>View\<close>: the JSX of \<open>FormPage\<close> as a React element tree (\<open>vnode\<close>
    of the prelude) with its event props, one definition per block.
  \<^item> \<open>Landing\<close>: \<open>EventBanner\<close> as an element tree and the application-level
    step from the banner to the mounted form page.

  \<^bold>\<open>What is proved.\<close>
  Validation (C1, C8, C9, C15): \<open>validateForm\<close> returns nothing exactly when
  every record has a name, an accepted e-mail and phone and a screenshot is
  attached; at most \<open>3 n + 1\<close> messages; record by record, name, e-mail, phone,
  screenshot last, with the required and invalid messages excluding each other;
  it computes the specification's abstract validation. The patterns (C5, C21):
  the e-mail pattern accepts exactly the strings that split at \<open>@\<close> into a
  local part of dot-separated words of \<open>[A-Za-z0-9_-]\<close> and a domain of such
  words each followed by a dot and a top-level label of two to seven letters;
  the phone pattern accepts exactly an optional \<open>+91\<close> with an optional
  separator, an optional \<open>0\<close>, an optional \<open>91\<close>, in this order, followed by a
  10-digit mobile number starting with 7, 8 or 9. Both rest on the lemma
  \<open>rx_match_lang\<close>: the matcher decides the pattern's language.
  Handlers (C3, C4, C6, C7, C10, C13, C14): each handler's effect on every
  branch, \<open>handleNumPersonsChange\<close> throwing exactly for the inputs \<open>Array(n)\<close>
  rejects; the round trips of the ticket number and of the JSON payload.
  Refinement (C16--C18): inside the specification's contract the count change,
  the field edit and the ticket choice implement their abstract operations.
  Page invariants by rule induction (C2, C11, C12, C19): every POST carries a
  validated payload, price and ticket number stay consistent, edits never leave
  holes in the array, records keep the declared shape. Progress (C20): from
  every live page a purchase can be completed. Composition (C22): the form pages
  the application reaches from the banner are exactly the reachable pages.
  Behaviour the specification rules out (C23--C25): the mounted form posts an
  order without attendees, a \<open>NaN\<close> count keeps the roster and posts the total
  \<open>NaN\<close>, and two submissions in a row post twice.

  \<^bold>\<open>Bounds and choices.\<close> The random draw is \<open>k < 1000\<close>, the range of
  \<open>Math.floor(Math.random() * 1000)\<close>. Array lengths are bounded by \<open>2^32\<close>,
  as \<open>Array(n)\<close> and \<open>Array.from\<close> require. JavaScript numbers are exact
  integers or \<open>NaN\<close>, which agree with doubles below \<open>2^53\<close> in magnitude: a
  count of \<open>2^32\<close> or more unmounts the page, so every positive count and total
  of a live page is exact; a negative count of magnitude \<open>2^53 / 80\<close> or more
  stays live, and there the double total is rounded and printed in exponent
  notation, which the model does not reproduce. Strings are lists of 8-bit
  characters: the rupee sign of the rendered labels is its UTF-8 encoding, and
  code units above 255 typed by a user are outside the model. The JSON decoder
  reads a sequence with fuel equal to the length of the text, which is enough
  because every item takes at least one character; the round trip proves it
  returns.

  \<^bold>\<open>Not modelled.\<close> Styling and class names (kept as props of the banner
  only), the bytes of the images and of the QR code (static assets; the
  elements that show them are modelled), the browser's interactive constraint
  validation: \<open>min='1'\<close> of the count input (line 200) and \<open>type='email'\<close> of the
  e-mail inputs (line 226) make a browser refuse the submit event while an
  input is invalid, so \<open>dispatch\<close> offers \<open>SubmitForm\<close> in some states where a
  browser would not. The page model is therefore a superset of the browser's
  behaviours: its invariants (C2, C11, C12, C19) hold a fortiori, and the
  states used by C20, C23--C25 have a count of 1 or \<open>NaN\<close> (an empty number
  input is valid) and e-mail inputs that are empty or hold a plain address, so
  a browser submits there too. Also not modelled: \<open>console.log\<close> and
  \<open>e.preventDefault()\<close> (no effect on the state), the order in which React
  batches updates within one handler (all updates of a handler are applied
  together), and the remote service, of which only the answers a \<open>fetch\<close>
  can give and the reading of the JSON field are modelled.
\<close>


text \<open>
  Claim C24. On every live page whose roster and screenshot pass validation,
  entering a count that \<open>parseInt\<close> reads as \<open>NaN\<close> (an empty or non-numeric
  field) makes the count \<open>NaN\<close> while the roster stays, and the next submission
  posts that roster with the total \<open>NaN\<close>.
\<close>

theorem nan_count_posts_nan_total:
  assumes "\<not> crashed p" and "parse_int v = NaN"
    and "validateForm (personDetails (form p)) (transactionImage (form p)) = []"
  shows "\<exists>p'. run [InputNumPersons v, SubmitForm] p = Some p' \<and> numPersons (form p') = NaN \<and>
             personDetails (form p') = personDetails (form p) \<and>
             (\<exists>q. posted p' = posted p @ [q] \<and> map_of q ''total'' = Some (FD_Str ''NaN''))"
  using assms
  by (simp add: dispatch.simps commit_def handleNumPersonsChange_def handleSubmit_def Let_def
      render_ok_def rows_rendered_def build_form_data_def totalAmount_def)

theorem nan_count_posts_nan_total_witness:
  "\<not> crashed (the (run (fill_one @ [ChooseFiles (Some [File ''pay.png'']), SubmitForm]) (page_init 7))) \<and>
   parse_int '''' = NaN \<and>
   validateForm (personDetails (form (the (run (fill_one @ [ChooseFiles (Some [File ''pay.png'']), SubmitForm]) (page_init 7)))))
     (transactionImage (form (the (run (fill_one @ [ChooseFiles (Some [File ''pay.png'']), SubmitForm]) (page_init 7))))) = [] \<and>
   (\<exists>p'. run [InputNumPersons '''', SubmitForm]
           (the (run (fill_one @ [ChooseFiles (Some [File ''pay.png'']), SubmitForm]) (page_init 7))) = Some p' \<and>
      numPersons (form p') = NaN \<and>
      personDetails (form p') =
        personDetails (form (the (run (fill_one @ [ChooseFiles (Some [File ''pay.png'']), SubmitForm]) (page_init 7)))) \<and>
      (\<exists>q. posted p' = posted (the (run (fill_one @ [ChooseFiles (Some [File ''pay.png'']), SubmitForm]) (page_init 7))) @ [q] \<and>
           map_of q ''total'' = Some (FD_Str ''NaN'')))"
proof -
  obtain p where r: "run (fill_one @ [ChooseFiles (Some [File ''pay.png'']), SubmitForm]) (page_init 7) = Some p"
    and h: "\<not> crashed p"
    and pd: "personDetails (form p) = [[(''name'', ''Asha''), (''email'', ''asha@example.com''), (''phone'', ''9876543210'')]]"
    and img: "transactionImage (form p) = Some (File ''pay.png'')"
    by (rule submit_one_reachable)
  have v: "parse_int '''' = NaN" by (simp add: parse_int_def split_sign_def)
  have ok: "validateForm (personDetails (form p)) (transactionImage (form p)) = []"
    unfolding pd img by code_simp
  show ?thesis using r h v ok nan_count_posts_nan_total[OF h v ok] by simp
qed

text \<open>
  Claim C25. Nothing guards a submission in flight (section 9 of the
  specification asks for a \<open>Submitting\<close> state): on every reachable live page
  whose data pass validation, two submissions in a row, before any answer,
  issue the same POST twice.
\<close>

theorem submit_twice_posts_twice:
  assumes "reachable p" and "\<not> crashed p"
    and "validateForm (personDetails (form p)) (transactionImage (form p)) = []"
  shows "\<exists>p'. run [SubmitForm, SubmitForm] p = Some p' \<and>
             posted p' = posted p @ [build_form_data (form p), build_form_data (form p)] \<and>
             inflight p' = inflight p @ [build_form_data (form p), build_form_data (form p)]"
proof -
  have ro: "render_ok (form p)" using reachable_session_inv[OF assms(1)] assms(2) by simp
  then show ?thesis using assms(2,3)
    by (simp add: dispatch.simps commit_def handleSubmit_def Let_def)
qed

theorem submit_twice_posts_twice_witness:
  "reachable (the (run (fill_one @ [ChooseFiles (Some [File ''pay.png'']), SubmitForm]) (page_init 7))) \<and>
   \<not> crashed (the (run (fill_one @ [ChooseFiles (Some [File ''pay.png'']), SubmitForm]) (page_init 7))) \<and>
   validateForm (personDetails (form (the (run (fill_one @ [ChooseFiles (Some [File ''pay.png'']), SubmitForm]) (page_init 7)))))
     (transactionImage (form (the (run (fill_one @ [ChooseFiles (Some [File ''pay.png'']), SubmitForm]) (page_init 7))))) = [] \<and>
   (\<exists>p'. run [SubmitForm, SubmitForm]
           (the (run (fill_one @ [ChooseFiles (Some [File ''pay.png'']), SubmitForm]) (page_init 7))) = Some p' \<and>
      posted p' = posted (the (run (fill_one @ [ChooseFiles (Some [File ''pay.png'']), SubmitForm]) (page_init 7))) @
        [build_form_data (form (the (run (fill_one @ [ChooseFiles (Some [File ''pay.png'']), SubmitForm]) (page_init 7)))),
         build_form_data (form (the (run (fill_one @ [ChooseFiles (Some [File ''pay.png'']), SubmitForm]) (page_init 7))))] \<and>
      inflight p' = inflight (the (run (fill_one @ [ChooseFiles (Some [File ''pay.png'']), SubmitForm]) (page_init 7))) @
        [build_form_data (form (the (run (fill_one @ [ChooseFiles (Some [File ''pay.png'']), SubmitForm]) (page_init 7)))),
         build_form_data (form (the (run (fill_one @ [ChooseFiles (Some [File ''pay.png'']), SubmitForm]) (page_init 7))))])"
proof -
  obtain p where r: "run (fill_one @ [ChooseFiles (Some [File ''pay.png'']), SubmitForm]) (page_init 7) = Some p"
    and h: "reachable p" "\<not> crashed p"
    and pd: "personDetails (form p) = [[(''name'', ''Asha''), (''email'', ''asha@example.com''), (''phone'', ''9876543210'')]]"
    and img: "transactionImage (form p) = Some (File ''pay.png'')"
    by (rule submit_one_reachable)
  have ok: "validateForm (personDetails (form p)) (transactionImage (form p)) = []"
    unfolding pd img by code_simp
  show ?thesis using r h ok submit_twice_posts_twice[OF h ok] by simp
qed

end
